theory Spec2Isabelle
  imports Main "HOL-Library.Word" "HOL-Library.Sublist"
begin

unbundle bit_operations_syntax

section \<open>Bytes, hashes and Go slices\<close>

text \<open>
  \<^verbatim>\<open>common.Hash\<close> is \<^verbatim>\<open>[32]byte\<close> and \<^verbatim>\<open>common.Address\<close> is \<^verbatim>\<open>[20]byte\<close>; both are
  byte lists here, most significant byte first, of length \<open>HashLength\<close> and
  \<open>AddressLength\<close>. \<^verbatim>\<open>uint64\<close> is a 64-bit word, so \<open>+\<close> wraps as in Go; \<^verbatim>\<open>uint\<close>
  (the depth) is taken on a 64-bit platform.
\<close>

type_synonym byte = "8 word"
type_synonym uint64 = "64 word"
type_synonym Hash = "byte list"
type_synonym Address = "byte list"

definition HashLength :: nat where
  "HashLength = 32"

definition AddressLength :: nat where
  "AddressLength = 20"

datatype go_panic = SliceBoundsOutOfRange | IndexOutOfRange | NilPointerDereference | ErrPanic

text \<open>
  Go's \<^verbatim>\<open>copy(dst[:], src)\<close> into a freshly declared (all zero) array of \<open>n\<close> bytes:
  the first \<open>min n (len src)\<close> bytes of \<open>src\<close>, the rest stays zero.
\<close>

definition copyInto :: "nat \<Rightarrow> byte list \<Rightarrow> byte list" where
  "copyInto n src = take n src @ replicate (n - length src) 0"

text \<open>
  The slice expression \<^verbatim>\<open>b[lo:hi]\<close> on a byte slice. A Go slice has a length and a
  capacity: \<open>b\<close> are the bytes up to its length and \<open>spare\<close> the bytes of its backing array
  from its length to its capacity. The expression panics unless
  \<open>0 \<le> lo \<le> hi \<le> cap b\<close>, and it can reach into the spare bytes. The result is
  the bytes of the new slice up to its length.
\<close>

definition go_slice :: "byte list \<Rightarrow> byte list \<Rightarrow> int \<Rightarrow> int \<Rightarrow> go_panic + byte list" where
  "go_slice b spare lo hi =
     (if 0 \<le> lo \<and> lo \<le> hi \<and> hi \<le> int (length b + length spare)
      then Inr (take (nat (hi - lo)) (drop (nat lo) (b @ spare)))
      else Inl SliceBoundsOutOfRange)"

text \<open>
  Modelled from the spec: \<^verbatim>\<open>common.BytesToHash(w).Big()\<close> and \<^verbatim>\<open>common.BytesToAddress\<close>
  are not among the sources. The numeric fields are \<open>hashWidth\<close>-byte big-endian words (spec 4.2),
  so \<open>HashBig w\<close> is the big-endian value of the bytes of \<open>w\<close>; \<open>BytesToAddress\<close> keeps the
  low-order \<open>AddressLength\<close> bytes, padding a shorter input with zeros on the left.
\<close>

definition HashBig :: "byte list \<Rightarrow> nat" where
  "HashBig w = foldl (\<lambda>a b. 256 * a + unat b) 0 w"

definition BytesToAddress :: "byte list \<Rightarrow> Address" where
  "BytesToAddress b =
     (let b' = drop (length b - AddressLength) b
      in replicate (AddressLength - length b') 0 @ b')"

text \<open>
  \<^verbatim>\<open>(*big.Int).Uint64()\<close> and \<^verbatim>\<open>(*big.Int).Int64()\<close> of a non-negative value: its low 64
  bits, read unsigned or as two's complement. Both are kept as the 64-bit pattern; \<open>sint\<close>
  reads the \<^verbatim>\<open>int64\<close>.
\<close>

definition BigUint64 :: "nat \<Rightarrow> uint64" where
  "BigUint64 n = word_of_nat n"

definition BigInt64 :: "nat \<Rightarrow> 64 word" where
  "BigInt64 n = word_of_nat n"

section \<open>The data of the bridge\<close>

text \<open>
  \<^verbatim>\<open>types.Log\<close>. Its \<^verbatim>\<open>Data\<close> is a byte slice: \<open>Data\<close> holds the \<^verbatim>\<open>len(Data)\<close> bytes of
  the slice and \<open>DataSpare\<close> the \<^verbatim>\<open>cap(Data) - len(Data)\<close> bytes behind them in its backing
  array (none when the slice was allocated at its length).
\<close>

record Log =
  Address :: Address
  Topics :: "Hash list"
  Data :: "byte list"
  DataSpare :: "byte list"
  BlockNumber :: uint64
  TxHash :: Hash
  BlockHash :: Hash

text \<open>
  \<^verbatim>\<open>params.MakerTopic\<close>, \<^verbatim>\<open>params.TakerTopic\<close> and \<^verbatim>\<open>params.MakerFinishTopic\<close> are
  constants of a package that is not among the sources: they are parameters of the model.
\<close>

record Params =
  MakerTopic :: Hash
  TakerTopic :: Hash
  MakerFinishTopic :: Hash

text \<open>
  Modelled from the spec: the types of package \<^verbatim>\<open>cross/core\<close> (\<^verbatim>\<open>CrossTransaction\<close>,
  \<^verbatim>\<open>ReceptTransaction\<close>, \<^verbatim>\<open>CrossTransactionModifier\<close>, \<^verbatim>\<open>CrossBlockEvent\<close>) and their
  constructors are not among the sources. A record keeps the arguments of the constructor call in
  the fields the spec's data model names (spec 3); \<open>CrossBlockEvent\<close>'s number is a block
  height, read by the code only through \<^verbatim>\<open>Uint64()\<close> and written through \<^verbatim>\<open>SetUint64\<close>.
\<close>

record CrossTransaction =
  ctx_Value :: nat
  ctx_DestinationValue :: nat
  ctx_DestinationId :: nat
  ctx_CTxId :: Hash
  ctx_TxHash :: Hash
  ctx_BlockHash :: Hash
  ctx_From :: Address
  ctx_To :: Address
  ctx_Input :: "byte list"

definition NewCrossTransaction ::
  "nat \<Rightarrow> nat \<Rightarrow> nat \<Rightarrow> Hash \<Rightarrow> Hash \<Rightarrow> Hash \<Rightarrow> Address \<Rightarrow> Address \<Rightarrow> byte list
   \<Rightarrow> CrossTransaction" where
  "NewCrossTransaction amount charge networkId cid txHash bHash frm t input =
     \<lparr>ctx_Value = amount, ctx_DestinationValue = charge, ctx_DestinationId = networkId,
      ctx_CTxId = cid, ctx_TxHash = txHash, ctx_BlockHash = bHash,
      ctx_From = frm, ctx_To = t, ctx_Input = input\<rparr>"

record ReceptTransaction =
  rtx_CTxId :: Hash
  rtx_TxHash :: Hash
  rtx_From :: Address
  rtx_To :: Address
  rtx_DestinationId :: nat
  rtx_ChainId :: uint64

definition NewReceptTransaction ::
  "Hash \<Rightarrow> Hash \<Rightarrow> Address \<Rightarrow> Address \<Rightarrow> nat \<Rightarrow> uint64 \<Rightarrow> ReceptTransaction" where
  "NewReceptTransaction cid txHash frm t networkId chainId =
     \<lparr>rtx_CTxId = cid, rtx_TxHash = txHash, rtx_From = frm, rtx_To = t,
      rtx_DestinationId = networkId, rtx_ChainId = chainId\<rparr>"

datatype CtxStatus = CtxStatusPending | CtxStatusSigned | CtxStatusExecutable
  | CtxStatusTaken | CtxStatusFinished

record CrossTransactionModifier =
  ID :: Hash
  AtBlockNumber :: uint64
  Status :: CtxStatus

record CrossBlockEvent =
  Number :: uint64
  ConfirmedMaker :: "CrossTransaction list"
  ConfirmedTaker :: "ReceptTransaction list"
  ConfirmedFinish :: "CrossTransactionModifier list"

section \<open>unconfirmed.go: the unconfirmed ledger\<close>

text \<open>
  Modelled from the spec: \<^verbatim>\<open>types.Header\<close> is not among the sources. \<open>shift\<close> reads a header
  through \<^verbatim>\<open>header.Hash()\<close> and \<^verbatim>\<open>header.Number.Uint64()\<close> only, so a header is these two
  values.
\<close>

record Header =
  HeaderHash :: Hash
  HeaderNumber :: uint64

text \<open>
  The \<^verbatim>\<open>chainRetriever\<close> interface. \<open>GetHeaderByNumber\<close> gives \<open>None\<close> for Go's \<^verbatim>\<open>nil\<close>;
  \<open>GetTransactionByTxHash\<close> gives \<open>None\<close> when the transaction it returns is \<^verbatim>\<open>nil\<close>, and the
  block hash and block number otherwise; \<open>ChainID\<close> is \<^verbatim>\<open>GetChainConfig().ChainID\<close>.
\<close>

record chainRetriever =
  GetHeaderByNumber :: "uint64 \<Rightarrow> Header option"
  GetTransactionByTxHash :: "Hash \<Rightarrow> (Hash \<times> uint64) option"
  ChainID :: uint64

text \<open>\<open>logs = None\<close> is a \<^verbatim>\<open>nil\<close> slice.\<close>

record unconfirmedBlockLog =
  index :: uint64
  hash :: Hash
  logs :: "Log list option"

text \<open>
  The fields of \<^verbatim>\<open>SimpleSubscriber\<close> that \<open>add\<close>, \<open>insert\<close> and \<open>shift\<close> use. The ring
  \<open>blocks\<close> is the list of its values from \<^verbatim>\<open>t.blocks\<close> onwards, \<open>[]\<close> for \<^verbatim>\<open>nil\<close>;
  \<open>hookSet\<close> says that \<^verbatim>\<open>shiftLogHook\<close> is not \<^verbatim>\<open>nil\<close>. What the subscriber does to the
  outside is collected: \<open>hooked\<close> the calls of \<^verbatim>\<open>shiftLogHook\<close>, \<open>sent\<close> the events given to
  \<^verbatim>\<open>crossBlockSend\<close>, and \<open>currentEvent\<close> the event behind the caller's pointer
  (\<open>None\<close> for \<^verbatim>\<open>nil\<close>).
\<close>

record SimpleSubscriber =
  sub_chain :: chainRetriever
  depth :: uint64
  contract :: Address
  hookSet :: bool
  blocks :: "unconfirmedBlockLog list"

record Outside =
  currentEvent :: "CrossBlockEvent option"
  sent :: "CrossBlockEvent list"
  hooked :: "(uint64 \<times> Hash \<times> Log list option) list"

definition add :: "SimpleSubscriber \<Rightarrow> uint64 \<Rightarrow> Hash \<Rightarrow> Log list option \<Rightarrow> SimpleSubscriber" where
  "add t i h blockLogs = t\<lparr>blocks := blocks t @ [\<lparr>index = i, hash = h, logs = blockLogs\<rparr>]\<rparr>"

subsection \<open>The log decoder inside shift\<close>

datatype BridgeEvent =
  Maker CrossTransaction
  | Taker ReceptTransaction
  | Finish CrossTransactionModifier
  | Ignored

text \<open>The \<^verbatim>\<open>count\<close> of a maker log: the sixth data word, through \<^verbatim>\<open>Big().Int64()\<close>.\<close>

definition makerCount :: "Log \<Rightarrow> 64 word" where
  "makerCount v = BigInt64 (HashBig (take HashLength (drop (HashLength * 5) (Data v))))"

text \<open>
  The \<^verbatim>\<open>switch\<close> on a log that passed the test before it (so it has three topics). The
  bounds of the payload are computed in \<^verbatim>\<open>int64\<close>: \<open>HashLength * 6 + count\<close> wraps.
\<close>

definition decodeLog :: "Params \<Rightarrow> SimpleSubscriber \<Rightarrow> Log \<Rightarrow> go_panic + BridgeEvent" where
  "decodeLog P t v =
     (if MakerTopic P = Topics v ! 0 \<and> length (Data v) \<ge> HashLength * 6 then
        (let frm = copyInto AddressLength (drop (HashLength - AddressLength) (Topics v ! 2));
             to = copyInto AddressLength
                    (take AddressLength (drop (HashLength - AddressLength) (Data v)));
             ctxId = Topics v ! 1;
             count = makerCount v
         in case go_slice (Data v) (DataSpare v) (int (HashLength * 6))
                   (sint (word_of_nat (HashLength * 6) + count)) of
              Inl p \<Rightarrow> Inl p
            | Inr input \<Rightarrow>
                Inr (Maker (NewCrossTransaction
                  (HashBig (take HashLength (drop (HashLength * 2) (Data v))))
                  (HashBig (take HashLength (drop (HashLength * 3) (Data v))))
                  (HashBig (take HashLength (drop HashLength (Data v))))
                  ctxId (TxHash v) (BlockHash v) frm to input)))
      else if TakerTopic P = Topics v ! 0 \<and> length (Data v) \<ge> HashLength * 4 then
        (let to = copyInto AddressLength (drop (HashLength - AddressLength) (Topics v ! 2));
             frm = BytesToAddress
                     (take AddressLength (drop (HashLength * 2 - AddressLength) (Data v)));
             ctxId = Topics v ! 1
         in Inr (Taker (NewReceptTransaction ctxId (TxHash v) frm to
                  (HashBig (take HashLength (Data v))) (ChainID (sub_chain t)))))
      else if MakerFinishTopic P = Topics v ! 0 then
        Inr (Finish \<lparr>ID = Topics v ! 1,
                     AtBlockNumber = BlockNumber v + depth t,
                     Status = CtxStatusFinished\<rparr>)
      else Inr Ignored)"

text \<open>The test in front of the \<^verbatim>\<open>switch\<close>.\<close>

definition logAccepted :: "SimpleSubscriber \<Rightarrow> Log \<Rightarrow> bool" where
  "logAccepted t v =
     (case GetTransactionByTxHash (sub_chain t) (TxHash v) of
        None \<Rightarrow> False
      | Some (blockHash, blockNumber) \<Rightarrow>
          blockHash = BlockHash v \<and> blockNumber = BlockNumber v \<and>
          contract t = Address v \<and> length (Topics v) \<ge> 3)"

type_synonym extracted =
  "CrossTransaction list \<times> ReceptTransaction list \<times> CrossTransactionModifier list"

text \<open>The loop over \<^verbatim>\<open>next.logs\<close>; a panic ends it.\<close>

fun extractLogs :: "Params \<Rightarrow> SimpleSubscriber \<Rightarrow> Log list \<Rightarrow> extracted \<Rightarrow> go_panic + extracted" where
  "extractLogs P t [] acc = Inr acc"
| "extractLogs P t (v # vs) (ctxs, rtxs, finishModifiers) =
     (if logAccepted t v then
        (case decodeLog P t v of
           Inl p \<Rightarrow> Inl p
         | Inr (Maker tx) \<Rightarrow> extractLogs P t vs (ctxs @ [tx], rtxs, finishModifiers)
         | Inr (Taker rtx) \<Rightarrow> extractLogs P t vs (ctxs, rtxs @ [rtx], finishModifiers)
         | Inr (Finish m) \<Rightarrow> extractLogs P t vs (ctxs, rtxs, finishModifiers @ [m])
         | Inr Ignored \<Rightarrow> extractLogs P t vs (ctxs, rtxs, finishModifiers))
      else extractLogs P t vs (ctxs, rtxs, finishModifiers))"

subsection \<open>shift and insert\<close>

text \<open>
  The \<^verbatim>\<open>default\<close> case of \<open>shift\<close>: the hook, the extraction, and the merge into the
  caller's event or the emission of a new one. \<^verbatim>\<open>len(ctxs)|len(rtxs)|len(finishModifiers) > 0\<close>
  is the bitwise or of the three lengths.
\<close>

definition confirm ::
  "Params \<Rightarrow> SimpleSubscriber \<Rightarrow> Header \<Rightarrow> unconfirmedBlockLog \<Rightarrow> Outside \<Rightarrow> go_panic + Outside" where
  "confirm P t header next out =
     (let out1 = (if hookSet t
                  then out\<lparr>hooked := hooked out @ [(index next, hash next, logs next)]\<rparr>
                  else out)
      in case logs next of
           None \<Rightarrow> Inr out1
         | Some ls \<Rightarrow>
             (case extractLogs P t ls ([], [], []) of
                Inl p \<Rightarrow> Inl p
              | Inr (ctxs, rtxs, finishModifiers) \<Rightarrow>
                  (let confirmNumber = HeaderNumber header + depth t
                   in case currentEvent out1 of
                        Some ev \<Rightarrow>
                          if Number ev = confirmNumber then
                            Inr (out1\<lparr>currentEvent := Some (ev\<lparr>
                                   ConfirmedMaker := ConfirmedMaker ev @ ctxs,
                                   ConfirmedTaker := ConfirmedTaker ev @ rtxs,
                                   ConfirmedFinish := ConfirmedFinish ev @ finishModifiers\<rparr>)\<rparr>)
                          else if (int (length ctxs) OR int (length rtxs)
                                    OR int (length finishModifiers)) > 0 then
                            Inr (out1\<lparr>sent := sent out1 @
                                   [\<lparr>Number = confirmNumber, ConfirmedMaker = ctxs,
                                     ConfirmedTaker = rtxs, ConfirmedFinish = finishModifiers\<rparr>]\<rparr>)
                          else Inr out1
                      | None \<Rightarrow>
                          if (int (length ctxs) OR int (length rtxs)
                               OR int (length finishModifiers)) > 0 then
                            Inr (out1\<lparr>sent := sent out1 @
                                   [\<lparr>Number = confirmNumber, ConfirmedMaker = ctxs,
                                     ConfirmedTaker = rtxs, ConfirmedFinish = finishModifiers\<rparr>]\<rparr>)
                          else Inr out1)))"

text \<open>
  The loop of \<open>shift\<close> over the ring, oldest entry first. The result is the ring that is
  left and what was done to the outside, or the panic that ended the call.
\<close>

fun shift_loop ::
  "Params \<Rightarrow> SimpleSubscriber \<Rightarrow> uint64 \<Rightarrow> unconfirmedBlockLog list \<Rightarrow> Outside
   \<Rightarrow> go_panic + (unconfirmedBlockLog list \<times> Outside)" where
  "shift_loop P t height [] out = Inr ([], out)"
| "shift_loop P t height (next # rest) out =
     (case GetHeaderByNumber (sub_chain t) (index next) of
        None \<Rightarrow> shift_loop P t height rest out
      | Some header \<Rightarrow>
          if HeaderHash header \<noteq> hash next then shift_loop P t height rest out
          else if index next + depth t > height then Inr (next # rest, out)
          else (case confirm P t header next out of
                  Inl p \<Rightarrow> Inl p
                | Inr out' \<Rightarrow> shift_loop P t height rest out'))"

definition shift ::
  "Params \<Rightarrow> SimpleSubscriber \<Rightarrow> uint64 \<Rightarrow> Outside \<Rightarrow> go_panic + (SimpleSubscriber \<times> Outside)" where
  "shift P t height out =
     (case shift_loop P t height (blocks t) out of
        Inl p \<Rightarrow> Inl p
      | Inr (bs, out') \<Rightarrow> Inr (t\<lparr>blocks := bs\<rparr>, out'))"

definition insert_block ::
  "Params \<Rightarrow> SimpleSubscriber \<Rightarrow> uint64 \<Rightarrow> Hash \<Rightarrow> Log list option \<Rightarrow> Outside
   \<Rightarrow> go_panic + (SimpleSubscriber \<times> Outside)" where
  "insert_block P t i h blockLogs out =
     (case shift P t i out of
        Inl p \<Rightarrow> Inl p
      | Inr (t', out') \<Rightarrow> Inr (add t' i h blockLogs, out'))"

subsection \<open>What a walk of the ledger does, entry by entry\<close>

text \<open>
  The vocabulary of the theorems about \<open>shift\<close>. An entry is canonical when the chain has
  a header at its index with its hash; the walk stops at a canonical entry that is not
  old enough; an entry is ripe when it is canonical and old enough (\<open>+\<close> is that of
  \<^verbatim>\<open>uint64\<close>, as in the code). \<open>confirmAll\<close> runs the \<^verbatim>\<open>default\<close> case on a list of
  entries, one after the other, and \<open>extractEntry\<close> is what the \<^verbatim>\<open>default\<close> case extracts
  from one entry (nothing from a \<^verbatim>\<open>nil\<close> slice of logs).
\<close>

definition canonical :: "SimpleSubscriber \<Rightarrow> unconfirmedBlockLog \<Rightarrow> bool" where
  "canonical t e =
     (case GetHeaderByNumber (sub_chain t) (index e) of
        None \<Rightarrow> False
      | Some header \<Rightarrow> HeaderHash header = hash e)"

definition stops :: "SimpleSubscriber \<Rightarrow> uint64 \<Rightarrow> unconfirmedBlockLog \<Rightarrow> bool" where
  "stops t height e = (canonical t e \<and> index e + depth t > height)"

definition ripe :: "SimpleSubscriber \<Rightarrow> uint64 \<Rightarrow> unconfirmedBlockLog \<Rightarrow> bool" where
  "ripe t height e = (canonical t e \<and> height \<ge> index e + depth t)"

fun confirmAll ::
  "Params \<Rightarrow> SimpleSubscriber \<Rightarrow> unconfirmedBlockLog list \<Rightarrow> Outside \<Rightarrow> go_panic + Outside" where
  "confirmAll P t [] out = Inr out"
| "confirmAll P t (e # es) out =
     (case GetHeaderByNumber (sub_chain t) (index e) of
        None \<Rightarrow> confirmAll P t es out
      | Some header \<Rightarrow>
          (case confirm P t header e out of
             Inl p \<Rightarrow> Inl p
           | Inr out' \<Rightarrow> confirmAll P t es out'))"

definition extractEntry ::
  "Params \<Rightarrow> SimpleSubscriber \<Rightarrow> unconfirmedBlockLog \<Rightarrow> go_panic + extracted" where
  "extractEntry P t next =
     (case logs next of
        None \<Rightarrow> Inr ([], [], [])
      | Some ls \<Rightarrow> extractLogs P t ls ([], [], []))"

section \<open>archive/signTx/main.go: the signing and relay tool\<close>

text \<open>
  The chain client, the signing and encoding libraries and package \<^verbatim>\<open>cross/core\<close> are
  not among the sources: what they return is a parameter of the model. \<open>'ctx\<close> is a
  \<^verbatim>\<open>*cc.CrossTransaction\<close> as this tool's \<^verbatim>\<open>NewCrossTransaction\<close> builds it, \<open>'cws\<close> a
  \<^verbatim>\<open>*cc.CrossTransactionWithSignatures\<close> and \<open>'stx\<close> a signed \<^verbatim>\<open>*types.Transaction\<close>. A call
  that returns an error gives \<open>None\<close> (or \<open>False\<close>, when it returns the error only).
\<close>

type_synonym PrivateKey = "byte list"

record Transaction =
  tx_nonce :: uint64
  tx_to :: Address
  tx_amount :: int
  tx_gasLimit :: uint64
  tx_gasPrice :: nat
  tx_data :: "byte list"

record BlockTx =
  btx_To :: "Address option"
  btx_Hash :: Hash

record Block =
  blk_Number :: uint64
  Transactions :: "BlockTx list"

record Receipt =
  Logs :: "Log list"

text \<open>
  \<open>TransactionReceipt c h k\<close> is the answer to the call number \<open>k\<close> for the receipt of
  \<open>h\<close>: the scan asks a second time after a failure.
\<close>

record ('cws, 'stx) Client =
  BlockByNumber :: "uint64 \<Rightarrow> Block option"
  TransactionReceipt :: "Hash \<Rightarrow> nat \<Rightarrow> Receipt option"
  NonceAt :: "Address \<Rightarrow> uint64 option"
  SuggestGasPrice :: "nat option"
  SendTransaction :: "'stx \<Rightarrow> bool"
  SendCrossTxMain :: "'cws \<Rightarrow> bool"
  SendCrossTxSub :: "'cws \<Rightarrow> bool"

record ('ctx, 'cws, 'stx) Externals =
  NewCrossTransaction8 ::
    "nat \<Rightarrow> nat \<Rightarrow> nat \<Rightarrow> Hash \<Rightarrow> Hash \<Rightarrow> Hash \<Rightarrow> Address \<Rightarrow> byte list \<Rightarrow> 'ctx"
  CtxSignerHash :: "uint64 \<Rightarrow> 'ctx \<Rightarrow> Hash"
  CryptoSign :: "Hash \<Rightarrow> PrivateKey \<Rightarrow> byte list option"
  WithSignature :: "'ctx \<Rightarrow> uint64 \<Rightarrow> byte list \<Rightarrow> 'ctx option"
  EncodeToBytes :: "'ctx option \<Rightarrow> byte list option"
  NewCrossTransactionWithSignatures :: "'ctx option \<Rightarrow> go_panic + 'cws"
  DecodeBytes :: "byte list \<Rightarrow> 'ctx option"
  AddSignature :: "'cws \<Rightarrow> 'ctx \<Rightarrow> 'cws option"
  ConstructData :: "ReceptTransaction \<Rightarrow> byte list option"
  SignTx :: "Transaction \<Rightarrow> int \<Rightarrow> PrivateKey \<Rightarrow> 'stx option"

record ChainConfig =
  cfg_Url :: string
  cfg_ChainID :: uint64
  cfg_ContractAddr :: string
  FromBlock :: uint64
  EndBlock :: uint64

text \<open>
  \<^verbatim>\<open>Chain.ChainID\<close> is built by \<^verbatim>\<open>new(big.Int).SetUint64\<close> and read through \<^verbatim>\<open>Uint64()\<close>:
  a \<^verbatim>\<open>uint64\<close>. The two maps are the pending sets.
\<close>

record ('cws, 'stx) Chain =
  Url :: string
  Client :: "('cws, 'stx) Client"
  chain_ChainID :: uint64
  ContractAddr :: Address
  IsMain :: bool
  MakerEvents :: "Hash \<rightharpoonup> Log"
  TakerEvents :: "Hash \<rightharpoonup> Log"

record ('cws, 'stx) Handler =
  AnchorAddr :: Address
  AnchorKey :: PrivateKey
  MainChain :: "('cws, 'stx) Chain"
  SubChain :: "('cws, 'stx) Chain"

text \<open>
  What a call does to the outside, in order: the lines it logs (the message, and the
  encoded record of the line \<^verbatim>\<open>CrossTransaction\<close>), the transactions and the signed records
  it hands to a client. A call returns or panics.
\<close>

datatype ('cws, 'stx) Effect =
  LogError string
  | LogInfo string
  | LogInfoRlp string "byte list"
  | SendTransactionCall bool 'stx
  | SendCrossTxMainCall 'cws
  | SendCrossTxSubCall 'cws

datatype Outcome = Returned | Panicked go_panic

definition andThen ::
  "'e list \<times> Outcome \<Rightarrow> 'e list \<times> Outcome \<Rightarrow> 'e list \<times> Outcome" where
  "andThen r k =
     (case r of
        (es, Panicked p) \<Rightarrow> (es, Panicked p)
      | (es, Returned) \<Rightarrow> (es @ fst k, snd k))"

record TranParam =
  gasLimit :: uint64
  gasPrice :: nat
  data :: "byte list"

definition SignCtx ::
  "('ctx, 'cws, 'stx) Externals \<Rightarrow> ('cws, 'stx) Handler \<Rightarrow> 'ctx \<Rightarrow> uint64 \<Rightarrow> 'ctx option" where
  "SignCtx X h tx s =
     (case CryptoSign X (CtxSignerHash X s tx) (AnchorKey h) of
        None \<Rightarrow> None
      | Some sig \<Rightarrow> WithSignature X tx s sig)"

definition createTransaction ::
  "('ctx, 'cws, 'stx) Externals \<Rightarrow> ('cws, 'stx) Chain \<Rightarrow> ReceptTransaction
   \<Rightarrow> ('cws, 'stx) Effect list \<times> TranParam option" where
  "createTransaction X chain rws =
     (case SuggestGasPrice (Client chain) of
        None \<Rightarrow> ([], None)
      | Some price \<Rightarrow>
          (case ConstructData X rws of
             None \<Rightarrow> ([LogError ''ConstructData''], None)
           | Some d \<Rightarrow> ([], Some \<lparr>gasLimit = 250000, gasPrice = price, data = d\<rparr>)))"

text \<open>\<^verbatim>\<open>big.NewInt(int64(networkId))\<close>: the signer's chain id is the \<^verbatim>\<open>int64\<close> reading.\<close>

definition newSignedTransaction ::
  "('ctx, 'cws, 'stx) Externals \<Rightarrow> ('cws, 'stx) Handler \<Rightarrow> uint64 \<Rightarrow> Address \<Rightarrow> uint64 \<Rightarrow> nat
   \<Rightarrow> byte list \<Rightarrow> uint64 \<Rightarrow> 'stx option" where
  "newSignedTransaction X h nonce to gl gp d networkId =
     SignTx X \<lparr>tx_nonce = nonce, tx_to = to, tx_amount = 0, tx_gasLimit = gl,
               tx_gasPrice = gp, tx_data = d\<rparr>
       (sint networkId) (AnchorKey h)"

definition TakerEvent ::
  "('ctx, 'cws, 'stx) Externals \<Rightarrow> ('cws, 'stx) Handler \<Rightarrow> ('cws, 'stx) Chain \<Rightarrow> Log
   \<Rightarrow> ('cws, 'stx) Effect list \<times> Outcome" where
  "TakerEvent X h chain event =
     (let otherChain = (if IsMain chain then SubChain h else MainChain h)
      in case NonceAt (Client otherChain) (AnchorAddr h) of
           None \<Rightarrow> ([LogError ''get nonce''], Panicked ErrPanic)
         | Some nonce \<Rightarrow>
             if length (Topics event) \<le> 2 then ([], Panicked IndexOutOfRange)
             else
               (case go_slice (Data event) (DataSpare event)
                       (int (HashLength * 2 - AddressLength))
                       (int (HashLength * 2)) of
                  Inl p \<Rightarrow> ([], Panicked p)
                | Inr fromBytes \<Rightarrow>
                    (case go_slice (Data event) (DataSpare event) 0 (int HashLength) of
                       Inl p \<Rightarrow> ([], Panicked p)
                     | Inr word \<Rightarrow>
                         (let rtx = \<lparr>rtx_CTxId = Topics event ! 1,
                                     rtx_TxHash = replicate HashLength 0,
                                     rtx_From = BytesToAddress fromBytes,
                                     rtx_To = copyInto AddressLength
                                       (drop (HashLength - AddressLength) (Topics event ! 2)),
                                     rtx_DestinationId = HashBig word,
                                     rtx_ChainId = chain_ChainID chain\<rparr>
                          in if BigUint64 (rtx_DestinationId rtx) = chain_ChainID otherChain then
                               (case createTransaction X otherChain rtx of
                                  (es, None) \<Rightarrow>
                                    (es @ [LogError ''GetTxForLockOut CreateTransaction''],
                                     Panicked NilPointerDereference)
                                | (es, Some param) \<Rightarrow>
                                    (case newSignedTransaction X h nonce (ContractAddr otherChain)
                                            (gasLimit param) (gasPrice param) (data param)
                                            (chain_ChainID otherChain) of
                                       None \<Rightarrow>
                                         (es @ [LogError ''GetTxForLockOut newSignedTransaction''],
                                          Panicked ErrPanic)
                                     | Some tx \<Rightarrow>
                                         if SendTransaction (Client otherChain) tx then
                                           (es @ [SendTransactionCall (IsMain otherChain) tx,
                                                  LogInfo ''SendTransaction sub''], Returned)
                                         else
                                           (es @ [SendTransactionCall (IsMain otherChain) tx,
                                                  LogError ''sub chain SendTransaction failed''],
                                            Returned)))
                             else ([], Returned)))))"

text \<open>
  \<open>MakeEvent\<close> reads its log with no test of the lengths; once \<^verbatim>\<open>Data[128:160]\<close> is in
  range of the capacity, so are the three words before it. \<open>MakeEvent_relay\<close> is what
  \<open>MakeEvent\<close> does after the signing: the encoding, and the relay when a second anchor's
  record is given. \<open>signedTx = None\<close> is the \<^verbatim>\<open>nil\<close> that \<open>SignCtx\<close> returns with an error.
\<close>

definition MakeEvent_relay ::
  "('ctx, 'cws, 'stx) Externals \<Rightarrow> ('cws, 'stx) Chain \<Rightarrow> 'ctx option \<Rightarrow> byte list
   \<Rightarrow> ('cws, 'stx) Effect list \<times> Outcome" where
  "MakeEvent_relay X chain signedTx crossTxBytes =
     (case EncodeToBytes X signedTx of
        None \<Rightarrow> ([LogError ''encode crossTxWithSign failed''], Panicked ErrPanic)
      | Some encoded \<Rightarrow>
          if length crossTxBytes > 0 then
            (case NewCrossTransactionWithSignatures X signedTx of
               Inl p \<Rightarrow> ([], Panicked p)
             | Inr crossTxWithSign \<Rightarrow>
                 (case DecodeBytes X crossTxBytes of
                    None \<Rightarrow> ([], Panicked ErrPanic)
                  | Some addTx \<Rightarrow>
                      (case AddSignature X crossTxWithSign addTx of
                         None \<Rightarrow> ([], Panicked ErrPanic)
                       | Some merged \<Rightarrow>
                           if IsMain chain then
                             (if SendCrossTxMain (Client chain) merged
                              then ([SendCrossTxMainCall merged,
                                     LogInfo ''SendCrossTransaction successfully''], Returned)
                              else ([SendCrossTxMainCall merged], Panicked ErrPanic))
                           else
                             (if SendCrossTxSub (Client chain) merged
                              then ([SendCrossTxSubCall merged,
                                     LogInfo ''SendCrossTransaction successfully''], Returned)
                              else ([SendCrossTxSubCall merged], Panicked ErrPanic)))))
          else ([LogInfoRlp ''CrossTransaction'' encoded], Returned))"

definition MakeEvent ::
  "('ctx, 'cws, 'stx) Externals \<Rightarrow> ('cws, 'stx) Handler \<Rightarrow> ('cws, 'stx) Chain \<Rightarrow> Log \<Rightarrow> byte list
   \<Rightarrow> ('cws, 'stx) Effect list \<times> Outcome" where
  "MakeEvent X h chain event crossTxBytes =
     (if length (Topics event) \<le> 2 then ([], Panicked IndexOutOfRange)
      else
        (case go_slice (Data event) (DataSpare event) (int (HashLength * 4))
                (int (HashLength * 5)) of
           Inl p \<Rightarrow> ([], Panicked p)
         | Inr countWord \<Rightarrow>
             (let frm = copyInto AddressLength
                          (drop (HashLength - AddressLength) (Topics event ! 2));
                  ctxId = Topics event ! 1;
                  count = BigInt64 (HashBig countWord)
              in case go_slice (Data event) (DataSpare event) (int (HashLength * 5))
                        (sint (word_of_nat (HashLength * 5) + count)) of
                   Inl p \<Rightarrow> ([], Panicked p)
                 | Inr input \<Rightarrow>
                     (let crossTx = NewCrossTransaction8 X
                            (HashBig (take HashLength
                               (drop HashLength (Data event @ DataSpare event))))
                            (HashBig (take HashLength
                               (drop (HashLength * 2) (Data event @ DataSpare event))))
                            (HashBig (take HashLength (Data event @ DataSpare event)))
                            ctxId (TxHash event) (BlockHash event) frm input;
                          signer = chain_ChainID chain
                      in case SignCtx X h crossTx signer of
                           None \<Rightarrow>
                             andThen ([LogError ''SignCtx failed''], Returned)
                               (MakeEvent_relay X chain None crossTxBytes)
                         | Some signedTx \<Rightarrow>
                             MakeEvent_relay X chain (Some signedTx) crossTxBytes))))"

text \<open>
  The loop of \<open>handleTx\<close> over the logs of the receipt. \<open>addCrossTxBytes\<close> is what
  \<^verbatim>\<open>hexutil.Decode(*addCrossTx)\<close> gives. The line logged for a maker log reads
  \<^verbatim>\<open>v.Topics[1]\<close> before \<open>MakeEvent\<close> is called.
\<close>

fun handleLogs ::
  "Params \<Rightarrow> ('ctx, 'cws, 'stx) Externals \<Rightarrow> ('cws, 'stx) Handler \<Rightarrow> ('cws, 'stx) Chain
   \<Rightarrow> byte list \<Rightarrow> Log list \<Rightarrow> ('cws, 'stx) Effect list \<times> Outcome" where
  "handleLogs P X h chain addCrossTxBytes [] = ([], Returned)"
| "handleLogs P X h chain addCrossTxBytes (v # vs) =
     (if length (Topics v) > 0 then
        andThen
          (if Topics v ! 0 = MakerTopic P then
             (if length (Topics v) \<le> 1 then ([], Panicked IndexOutOfRange)
              else andThen ([LogInfo ''tx event MakerTopic''], Returned)
                     (MakeEvent X h chain v addCrossTxBytes))
           else ([], Returned))
          (andThen
             (if length (Topics v) \<ge> 3 \<and> Topics v ! 0 = TakerTopic P \<and>
                 length (Data v) \<ge> HashLength * 4
              then andThen ([LogInfo ''tx event TakerTopic''], Returned) (TakerEvent X h chain v)
              else ([], Returned))
             (handleLogs P X h chain addCrossTxBytes vs))
      else handleLogs P X h chain addCrossTxBytes vs)"

definition handleTx ::
  "Params \<Rightarrow> ('ctx, 'cws, 'stx) Externals \<Rightarrow> ('cws, 'stx) Handler \<Rightarrow> ('cws, 'stx) Chain
   \<Rightarrow> byte list \<Rightarrow> Hash \<Rightarrow> ('cws, 'stx) Effect list \<times> Outcome" where
  "handleTx P X h chain addCrossTxBytes txHash =
     (case TransactionReceipt (Client chain) txHash 0 of
        None \<Rightarrow> ([LogError ''get receipt''], Panicked ErrPanic)
      | Some receipt \<Rightarrow> handleLogs P X h chain addCrossTxBytes (Logs receipt))"

subsection \<open>The scan of the two chains\<close>

definition isCrossChainContractAddr :: "('cws, 'stx) Chain \<Rightarrow> Address \<Rightarrow> bool" where
  "isCrossChainContractAddr c addr = (addr = ContractAddr c)"

text \<open>
  The body of the loop over \<^verbatim>\<open>receipt.Logs\<close> in \<open>parseContractLogs\<close>: it writes the two
  maps of the chain and appends to \<open>finishes\<close>.
\<close>

definition parseLog ::
  "Params \<Rightarrow> Log \<Rightarrow> ('cws, 'stx) Chain \<times> Hash list \<Rightarrow> ('cws, 'stx) Chain \<times> Hash list" where
  "parseLog P v st =
     (case st of (chain, finishes) \<Rightarrow>
        if length (Topics v) > 0 then
          if Topics v ! 0 = MakerTopic P \<and> length (Topics v) \<ge> 3 \<and>
             length (Data v) \<ge> HashLength * 5
          then (chain\<lparr>MakerEvents := (MakerEvents chain)(Topics v ! 1 \<mapsto> v)\<rparr>, finishes)
          else if length (Topics v) \<ge> 3 \<and> Topics v ! 0 = TakerTopic P \<and>
                  length (Data v) \<ge> HashLength * 4
          then (chain\<lparr>TakerEvents := (TakerEvents chain)(Topics v ! 1 \<mapsto> v)\<rparr>, finishes)
          else if length (Topics v) \<ge> 3 \<and> Topics v ! 0 = MakerFinishTopic P
          then (chain, finishes @ [Topics v ! 1])
          else (chain, finishes)
        else (chain, finishes))"

text \<open>\<^verbatim>\<open>for _, finish := range finishes { delete(m, finish) }\<close>\<close>

definition deleteAll :: "(Hash \<rightharpoonup> Log) \<Rightarrow> Hash list \<Rightarrow> (Hash \<rightharpoonup> Log)" where
  "deleteAll m ks = foldl (\<lambda>m' k. m'(k := None)) m ks"

text \<open>The receipt of a transaction, asked for a second time after a failure.\<close>

definition fetchReceipt :: "('cws, 'stx) Client \<Rightarrow> Hash \<Rightarrow> Receipt option" where
  "fetchReceipt c h =
     (case TransactionReceipt c h 0 of
        Some receipt \<Rightarrow> Some receipt
      | None \<Rightarrow> TransactionReceipt c h 1)"

fun parseTxs ::
  "Params \<Rightarrow> BlockTx list \<Rightarrow> ('cws, 'stx) Chain \<times> Hash list
   \<Rightarrow> go_panic + ('cws, 'stx) Chain \<times> Hash list" where
  "parseTxs P [] st = Inr st"
| "parseTxs P (tx # txs) (chain, finishes) =
     (case btx_To tx of
        None \<Rightarrow> parseTxs P txs (chain, finishes)
      | Some to \<Rightarrow>
          if isCrossChainContractAddr chain to then
            (case fetchReceipt (Client chain) (btx_Hash tx) of
               None \<Rightarrow> Inl ErrPanic
             | Some receipt \<Rightarrow>
                 (case foldl (\<lambda>st v. parseLog P v st) (chain, finishes) (Logs receipt) of
                    (chain1, finishes1) \<Rightarrow>
                      parseTxs P txs
                        (chain1\<lparr>MakerEvents := deleteAll (MakerEvents chain1) finishes1\<rparr>,
                         finishes1)))
          else parseTxs P txs (chain, finishes))"

fun parseBlocks ::
  "Params \<Rightarrow> uint64 list \<Rightarrow> ('cws, 'stx) Chain \<times> Hash list
   \<Rightarrow> go_panic + ('cws, 'stx) Chain \<times> Hash list" where
  "parseBlocks P [] st = Inr st"
| "parseBlocks P (i # rest) (chain, finishes) =
     (case BlockByNumber (Client chain) i of
        None \<Rightarrow> Inl ErrPanic
      | Some block \<Rightarrow>
          (case parseTxs P (Transactions block) (chain, finishes) of
             Inl p \<Rightarrow> Inl p
           | Inr st \<Rightarrow> parseBlocks P rest st))"

text \<open>\<^verbatim>\<open>for i := from; i < end; i++\<close> over \<^verbatim>\<open>uint64\<close>: the numbers from \<open>from\<close> up to \<open>end - 1\<close>.\<close>

definition blockRange :: "uint64 \<Rightarrow> uint64 \<Rightarrow> uint64 list" where
  "blockRange frm end = map word_of_nat [unat frm ..< unat end]"

definition parseContractLogs ::
  "Params \<Rightarrow> ('cws, 'stx) Chain \<Rightarrow> uint64 \<Rightarrow> uint64
   \<Rightarrow> go_panic + ('cws, 'stx) Chain \<times> Hash list" where
  "parseContractLogs P chain frm end = parseBlocks P (blockRange frm end) (chain, [])"

definition parseCrossChainEvents ::
  "Params \<Rightarrow> ('cws, 'stx) Handler \<Rightarrow> ChainConfig \<Rightarrow> ChainConfig
   \<Rightarrow> go_panic + ('cws, 'stx) Handler" where
  "parseCrossChainEvents P h mainConfig subConfig =
     (case parseContractLogs P (MainChain h) (FromBlock mainConfig) (EndBlock mainConfig) of
        Inl p \<Rightarrow> Inl p
      | Inr (mainChain, mainFinish) \<Rightarrow>
          (case parseContractLogs P (SubChain h) (FromBlock subConfig) (EndBlock subConfig) of
             Inl p \<Rightarrow> Inl p
           | Inr (subChain, subFinish) \<Rightarrow>
               Inr (h\<lparr>MainChain :=
                        mainChain\<lparr>TakerEvents := deleteAll (TakerEvents mainChain) subFinish\<rparr>,
                      SubChain :=
                        subChain\<lparr>TakerEvents := deleteAll (TakerEvents subChain) mainFinish\<rparr>\<rparr>)))"

text \<open>
  The vocabulary of the theorem about the scan: the logs a scan reads, in order (\<open>None\<close>
  when a block or a receipt cannot be fetched), how the loop classifies a log, the
  ids of the finish logs among them, and a pending set with every log of one kind
  registered and nothing deleted.
\<close>

fun scanTxs :: "('cws, 'stx) Client \<Rightarrow> Address \<Rightarrow> BlockTx list \<Rightarrow> Log list option" where
  "scanTxs c a [] = Some []"
| "scanTxs c a (tx # txs) =
     (if btx_To tx = Some a then
        (case fetchReceipt c (btx_Hash tx) of
           None \<Rightarrow> None
         | Some receipt \<Rightarrow>
             (case scanTxs c a txs of
                None \<Rightarrow> None
              | Some ls \<Rightarrow> Some (Logs receipt @ ls)))
      else scanTxs c a txs)"

fun scanBlocks :: "('cws, 'stx) Client \<Rightarrow> Address \<Rightarrow> uint64 list \<Rightarrow> Log list option" where
  "scanBlocks c a [] = Some []"
| "scanBlocks c a (i # rest) =
     (case BlockByNumber c i of
        None \<Rightarrow> None
      | Some block \<Rightarrow>
          (case scanTxs c a (Transactions block) of
             None \<Rightarrow> None
           | Some ls \<Rightarrow>
               (case scanBlocks c a rest of
                  None \<Rightarrow> None
                | Some ls' \<Rightarrow> Some (ls @ ls'))))"

definition scannedLogs :: "('cws, 'stx) Chain \<Rightarrow> ChainConfig \<Rightarrow> Log list option" where
  "scannedLogs chain config =
     scanBlocks (Client chain) (ContractAddr chain) (blockRange (FromBlock config) (EndBlock config))"

definition isMakerLog :: "Params \<Rightarrow> Log \<Rightarrow> bool" where
  "isMakerLog P v =
     (length (Topics v) \<ge> 3 \<and> Topics v ! 0 = MakerTopic P \<and> length (Data v) \<ge> HashLength * 5)"

definition isTakerLog :: "Params \<Rightarrow> Log \<Rightarrow> bool" where
  "isTakerLog P v =
     (\<not> isMakerLog P v \<and> length (Topics v) \<ge> 3 \<and> Topics v ! 0 = TakerTopic P \<and>
      length (Data v) \<ge> HashLength * 4)"

definition isFinishLog :: "Params \<Rightarrow> Log \<Rightarrow> bool" where
  "isFinishLog P v =
     (\<not> isMakerLog P v \<and> \<not> isTakerLog P v \<and> length (Topics v) \<ge> 3 \<and>
      Topics v ! 0 = MakerFinishTopic P)"

definition finishIds :: "Params \<Rightarrow> Log list \<Rightarrow> Hash list" where
  "finishIds P ls = map (\<lambda>v. Topics v ! 1) (filter (isFinishLog P) ls)"

definition registerAll :: "(Log \<Rightarrow> bool) \<Rightarrow> Log list \<Rightarrow> (Hash \<rightharpoonup> Log) \<Rightarrow> (Hash \<rightharpoonup> Log)" where
  "registerAll kind ls m = foldl (\<lambda>m' v. if kind v then m'(Topics v ! 1 \<mapsto> v) else m') m ls"

text \<open>
  \<open>scanned P c F ls c' F'\<close>: reading the logs \<open>ls\<close> took the chain from \<open>c\<close>, with the
  finish ids \<open>F\<close> collected so far, to \<open>c'\<close> with \<open>F'\<close>.
\<close>

definition scanned ::
  "Params \<Rightarrow> ('cws, 'stx) Chain \<Rightarrow> Hash list \<Rightarrow> Log list \<Rightarrow> ('cws, 'stx) Chain \<Rightarrow> Hash list
   \<Rightarrow> bool" where
  "scanned P c F ls c' F' \<longleftrightarrow>
     F' = F @ finishIds P ls \<and> Client c' = Client c \<and> ContractAddr c' = ContractAddr c \<and>
     TakerEvents c' = registerAll (isTakerLog P) ls (TakerEvents c) \<and>
     (\<forall>x. x \<notin> set F' \<longrightarrow> MakerEvents c' x = registerAll (isMakerLog P) ls (MakerEvents c) x) \<and>
     ((\<forall>x\<in>set F. MakerEvents c x = None) \<longrightarrow> (\<forall>x\<in>set F'. MakerEvents c' x = None))"

text \<open>
  The vocabulary of the theorem about \<open>TakerEvent\<close>: the counterpart of a chain, the
  receipt record read from a taker log, and the transaction that settles it (nonce,
  contract of the counterpart chain, no value, the gas limit of \<open>createTransaction\<close>, gas
  price and call data).
\<close>

definition otherChainOf :: "('cws, 'stx) Handler \<Rightarrow> ('cws, 'stx) Chain \<Rightarrow> ('cws, 'stx) Chain" where
  "otherChainOf h chain = (if IsMain chain then SubChain h else MainChain h)"

definition takerReceipt :: "('cws, 'stx) Chain \<Rightarrow> Log \<Rightarrow> ReceptTransaction" where
  "takerReceipt chain event =
     \<lparr>rtx_CTxId = Topics event ! 1,
      rtx_TxHash = replicate HashLength 0,
      rtx_From = BytesToAddress
        (take AddressLength (drop (HashLength * 2 - AddressLength) (Data event))),
      rtx_To = copyInto AddressLength (drop (HashLength - AddressLength) (Topics event ! 2)),
      rtx_DestinationId = HashBig (take HashLength (Data event)),
      rtx_ChainId = chain_ChainID chain\<rparr>"

definition settlement ::
  "('cws, 'stx) Chain \<Rightarrow> uint64 \<Rightarrow> nat \<Rightarrow> byte list \<Rightarrow> Transaction" where
  "settlement other nonce price callData =
     \<lparr>tx_nonce = nonce, tx_to = ContractAddr other, tx_amount = 0, tx_gasLimit = 250000,
      tx_gasPrice = price, tx_data = callData\<rparr>"

section \<open>Concrete inputs\<close>

text \<open>
  A small bridge on which the theorems below are run: topics \<open>1\<close>, \<open>2\<close> and \<open>3\<close> (each
  byte of the hash), a chain that has the headers of blocks 10 and 11, a subscriber of
  depth 3 on the contract at address \<open>5\<close>.
\<close>

definition exParams :: Params where
  "exParams = \<lparr>MakerTopic = replicate 32 1, TakerTopic = replicate 32 2,
               MakerFinishTopic = replicate 32 3\<rparr>"

definition exChain :: chainRetriever where
  "exChain =
     \<lparr>GetHeaderByNumber =
        (\<lambda>n. if n = 10 then Some \<lparr>HeaderHash = replicate 32 10, HeaderNumber = 10\<rparr>
             else if n = 11 then Some \<lparr>HeaderHash = replicate 32 11, HeaderNumber = 11\<rparr>
             else None),
      GetTransactionByTxHash = (\<lambda>h. Some (replicate 32 10, 10)),
      ChainID = 7\<rparr>"

definition exSubscriber :: "unconfirmedBlockLog list \<Rightarrow> SimpleSubscriber" where
  "exSubscriber bs =
     \<lparr>sub_chain = exChain, depth = 3, contract = replicate 20 5, hookSet = True, blocks = bs\<rparr>"

definition exOutside :: Outside where
  "exOutside = \<lparr>currentEvent = None, sent = [], hooked = []\<rparr>"

text \<open>A log of the contract in block 10: its first topic, its id and its data.\<close>

definition exLog :: "byte \<Rightarrow> byte \<Rightarrow> byte list \<Rightarrow> Log" where
  "exLog topic cid d =
     \<lparr>Address = replicate 20 5,
      Topics = [replicate 32 topic, replicate 32 cid, replicate 32 9],
      Data = d, DataSpare = [],
      BlockNumber = 10, TxHash = replicate 32 6, BlockHash = replicate 32 10\<rparr>"

definition exMakerLog :: Log where
  "exMakerLog = exLog 1 8 (replicate 192 0)"





definition exForkEntry :: unconfirmedBlockLog where
  "exForkEntry = \<lparr>index = 10, hash = replicate 32 12, logs = Some [exMakerLog]\<rparr>"

definition exEntry10 :: unconfirmedBlockLog where
  "exEntry10 = \<lparr>index = 10, hash = replicate 32 10, logs = Some [exMakerLog]\<rparr>"

definition exEntry11 :: unconfirmedBlockLog where
  "exEntry11 = \<lparr>index = 11, hash = replicate 32 11, logs = None\<rparr>"

definition exLostEntry :: unconfirmedBlockLog where
  "exLostEntry = \<lparr>index = 12, hash = replicate 32 12, logs = Some [exMakerLog]\<rparr>"

text \<open>
  The tool's two chains: the main chain has id 2 and the sub chain id 1; each client has
  one block, number 0, with one transaction to the contract, whose receipt holds the given
  logs. Signing a cross transaction fails in this environment; a signed transaction is the
  pair of the transaction and the signer's chain id.
\<close>

definition exClient :: "Log list \<Rightarrow> bool \<Rightarrow> (byte list, Transaction \<times> int) Client" where
  "exClient ls accepts =
     \<lparr>BlockByNumber =
        (\<lambda>i. if i = 0
             then Some \<lparr>blk_Number = 0,
                        Transactions = [\<lparr>btx_To = Some (replicate 20 5),
                                         btx_Hash = replicate 32 6\<rparr>]\<rparr>
             else None),
      TransactionReceipt = (\<lambda>h k. Some \<lparr>Logs = ls\<rparr>),
      NonceAt = (\<lambda>a. Some 4),
      SuggestGasPrice = Some 1000,
      SendTransaction = (\<lambda>tx. accepts),
      SendCrossTxMain = (\<lambda>c. True),
      SendCrossTxSub = (\<lambda>c. True)\<rparr>"

definition exExternals :: "(byte list, byte list, Transaction \<times> int) Externals" where
  "exExternals =
     \<lparr>NewCrossTransaction8 = (\<lambda>amount charge networkId cid txHash bHash frm input. cid),
      CtxSignerHash = (\<lambda>s tx. replicate 32 0),
      CryptoSign = (\<lambda>h k. None),
      WithSignature = (\<lambda>tx s sig. Some (tx @ sig)),
      EncodeToBytes = (\<lambda>tx. case tx of None \<Rightarrow> Some [192] | Some b \<Rightarrow> Some b),
      NewCrossTransactionWithSignatures =
        (\<lambda>tx. case tx of None \<Rightarrow> Inl NilPointerDereference | Some b \<Rightarrow> Inr b),
      DecodeBytes = (\<lambda>b. Some b),
      AddSignature = (\<lambda>c tx. Some (c @ tx)),
      ConstructData = (\<lambda>r. Some (rtx_CTxId r)),
      SignTx = (\<lambda>tx cid key. Some (tx, cid))\<rparr>"

definition exHandler :: "Log list \<Rightarrow> Log list \<Rightarrow> bool \<Rightarrow> (byte list, Transaction \<times> int) Handler" where
  "exHandler mainLogs subLogs accepts =
     \<lparr>AnchorAddr = replicate 20 4, AnchorKey = [1],
      MainChain = \<lparr>Url = ''main'', Client = exClient mainLogs accepts, chain_ChainID = 2,
                   ContractAddr = replicate 20 5, IsMain = True,
                   MakerEvents = Map.empty, TakerEvents = Map.empty\<rparr>,
      SubChain = \<lparr>Url = ''sub'', Client = exClient subLogs accepts, chain_ChainID = 1,
                  ContractAddr = replicate 20 5, IsMain = False,
                  MakerEvents = Map.empty, TakerEvents = Map.empty\<rparr>\<rparr>"

definition exConfig :: ChainConfig where
  "exConfig = \<lparr>cfg_Url = ''url'', cfg_ChainID = 0, cfg_ContractAddr = ''contract'',
               FromBlock = 0, EndBlock = 1\<rparr>"

text \<open>A log that has the maker topic and nothing else.\<close>

definition exBareMakerLog :: Log where
  "exBareMakerLog =
     \<lparr>Address = replicate 20 5, Topics = [replicate 32 1], Data = [], DataSpare = [],
      BlockNumber = 10, TxHash = replicate 32 6, BlockHash = replicate 32 10\<rparr>"

text \<open>
  The logs of a scan: on the main chain a maker for the id \<open>20\<close>, its finish, and a
  maker for the id \<open>21\<close>; on the sub chain a taker for each of the two ids.
\<close>

definition exMainLogs :: "Log list" where
  "exMainLogs = [exLog 1 20 (replicate 160 0), exLog 3 20 [], exLog 1 21 (replicate 160 0)]"

definition exSubLogs :: "Log list" where
  "exSubLogs = [exLog 2 20 (replicate 128 0), exLog 2 21 (replicate 128 0)]"

text \<open>
  Two data words, the big-endian \<open>1\<close> and the big-endian \<open>2^64 + 1\<close>, and taker data
  that begins with each.
\<close>

definition exOneWord :: "byte list" where
  "exOneWord = replicate 31 0 @ [1]"

definition exWideWord :: "byte list" where
  "exWideWord = replicate 23 0 @ [1] @ replicate 7 0 @ [1]"

definition exTakerData :: "byte list" where
  "exTakerData = exOneWord @ replicate 96 0"

definition exWideTakerData :: "byte list" where
  "exWideTakerData = exWideWord @ replicate 96 0"

section \<open>Theorems: the unconfirmed ledger\<close>

subsection \<open>Auxiliary facts\<close>

lemma shift_walk:
  "shift_loop P t height bs out =
     (case confirmAll P t (filter (ripe t height) (takeWhile (\<lambda>e. \<not> stops t height e) bs)) out of
        Inl p \<Rightarrow> Inl p
      | Inr out' \<Rightarrow> Inr (dropWhile (\<lambda>e. \<not> stops t height e) bs, out'))"
proof (induction bs arbitrary: out)
  case Nil
  show ?case by simp
next
  case (Cons e bs)
  show ?case
  proof (cases "GetHeaderByNumber (sub_chain t) (index e)")
    case None
    then have "\<not> stops t height e" and "\<not> ripe t height e"
      by (simp_all add: stops_def ripe_def canonical_def)
    with None Cons show ?thesis by (simp cong: sum.case_cong)
  next
    case (Some header)
    show ?thesis
    proof (cases "HeaderHash header = hash e")
      case False
      with Some have "\<not> stops t height e" and "\<not> ripe t height e"
        by (simp_all add: stops_def ripe_def canonical_def)
      with Some False Cons show ?thesis by (simp cong: sum.case_cong)
    next
      case True
      show ?thesis
      proof (cases "index e + depth t > height")
        case fresh: True
        with Some \<open>HeaderHash header = hash e\<close> have "stops t height e"
          by (simp add: stops_def canonical_def)
        with Some True fresh show ?thesis by (simp cong: sum.case_cong)
      next
        case old: False
        with Some True have "\<not> stops t height e" and "ripe t height e"
          by (simp_all add: stops_def ripe_def canonical_def not_less)
        with Some True old Cons show ?thesis by (simp split: sum.splits cong: sum.case_cong)
      qed
    qed
  qed
qed

lemma HashBig_zeros: "HashBig (replicate n 0) = 0"
proof -
  have "foldl (\<lambda>a b. 256 * a + unat b) 0 (replicate n (0::byte)) = 0"
    by (induction n) simp_all
  then show ?thesis by (simp add: HashBig_def)
qed

lemma HashBig_snoc: "HashBig (w @ [b]) = 256 * HashBig w + unat b"
  by (simp add: HashBig_def)

lemma HashBig_append: "HashBig (a @ b) = HashBig a * 256 ^ length b + HashBig b"
proof (induction b rule: rev_induct)
  case Nil
  show ?case by (simp add: HashBig_def)
next
  case (snoc x xs)
  have "HashBig (a @ xs @ [x]) = 256 * HashBig (a @ xs) + unat x"
    using HashBig_snoc [of "a @ xs" x] by simp
  with snoc show ?case
    by (simp add: HashBig_snoc algebra_simps)
qed

lemma HashBig_single: "HashBig [b] = unat b"
  by (simp add: HashBig_def)

lemma HashBig_Cons: "HashBig (x # xs) = unat x * 256 ^ length xs + HashBig xs"
  using HashBig_append [of "[x]" xs] by (simp add: HashBig_single)

lemma copyInto_exact: "length src = n \<Longrightarrow> copyInto n src = src"
  by (simp add: copyInto_def)

lemma makerCount_zero:
  "take HashLength (drop (HashLength * 5) (Data v)) = replicate HashLength 0 \<Longrightarrow> makerCount v = 0"
  by (simp add: makerCount_def HashBig_zeros BigInt64_def)

lemma ex_fields [simp]:
  "sub_chain (exSubscriber bs) = exChain" "depth (exSubscriber bs) = 3"
  "contract (exSubscriber bs) = replicate 20 5" "hookSet (exSubscriber bs) = True"
  "blocks (exSubscriber bs) = bs" "(exSubscriber bs)\<lparr>blocks := bs'\<rparr> = exSubscriber bs'"
  by (simp_all add: exSubscriber_def)

lemma ex_accepted: "logAccepted (exSubscriber bs) exMakerLog"
  by (simp add: logAccepted_def exChain_def exMakerLog_def exLog_def)

lemma ex_decode:
  "decodeLog exParams (exSubscriber bs) exMakerLog =
     Inr (Maker \<lparr>ctx_Value = 0, ctx_DestinationValue = 0, ctx_DestinationId = 0,
       ctx_CTxId = replicate 32 8, ctx_TxHash = replicate 32 6, ctx_BlockHash = replicate 32 10,
       ctx_From = replicate 20 9, ctx_To = replicate 20 0, ctx_Input = []\<rparr>)"
  by (simp add: decodeLog_def exParams_def exMakerLog_def exLog_def HashLength_def
      AddressLength_def makerCount_def HashBig_zeros BigInt64_def go_slice_def copyInto_def
      NewCrossTransaction_def)

lemma ex_extract:
  "extractLogs exParams (exSubscriber bs) [exMakerLog] ([], [], []) =
     Inr ([\<lparr>ctx_Value = 0, ctx_DestinationValue = 0, ctx_DestinationId = 0,
       ctx_CTxId = replicate 32 8, ctx_TxHash = replicate 32 6, ctx_BlockHash = replicate 32 10,
       ctx_From = replicate 20 9, ctx_To = replicate 20 0, ctx_Input = []\<rparr>], [], [])"
  by (simp add: ex_accepted ex_decode)

lemma ex_confirm10:
  "confirmAll exParams (exSubscriber bs) [exEntry10] exOutside =
     Inr \<lparr>currentEvent = None,
          sent = [\<lparr>Number = 13,
                   ConfirmedMaker = [\<lparr>ctx_Value = 0, ctx_DestinationValue = 0,
                     ctx_DestinationId = 0, ctx_CTxId = replicate 32 8,
                     ctx_TxHash = replicate 32 6, ctx_BlockHash = replicate 32 10,
                     ctx_From = replicate 20 9, ctx_To = replicate 20 0, ctx_Input = []\<rparr>],
                   ConfirmedTaker = [], ConfirmedFinish = []\<rparr>],
          hooked = [(10, replicate 32 10, Some [exMakerLog])]\<rparr>"
  by (simp add: confirm_def ex_extract exEntry10_def exChain_def exOutside_def
      del: extractLogs.simps)

subsection \<open>Which entries a call of shift confirms, drops and keeps\<close>

text \<open>
  The comments of \<open>shift\<close> describe a walk that aborts at an entry that is too fresh and
  checks the canonical status of an entry only once it exceeds the depth allowance. On a
  ledger in which every entry that is not canonical is old enough
  (\<open>height \<ge> index + depth\<close>), that is what a call does: it stops at the first entry
  that is not old enough, which stays in the ledger with every later one; the entries
  before it are removed, and of these the canonical ones are confirmed, in the order of
  the ledger. When the extraction from the logs of one of them panics, the call ends with
  that panic.
\<close>

lemma shift_past_allowance:
  assumes settled: "\<forall>e\<in>set (blocks t). \<not> canonical t e \<longrightarrow> height \<ge> index e + depth t"
  shows "shift P t height out =
     (case confirmAll P t
             (filter (canonical t)
                (takeWhile (\<lambda>e. height \<ge> index e + depth t) (blocks t))) out of
        Inl p \<Rightarrow> Inl p
      | Inr out' \<Rightarrow>
          Inr (t\<lparr>blocks := dropWhile (\<lambda>e. height \<ge> index e + depth t) (blocks t)\<rparr>, out'))"
proof -
  from settled
  have same: "\<forall>e\<in>set (blocks t). (height \<ge> index e + depth t) \<longleftrightarrow> \<not> stops t height e"
    by (auto simp add: stops_def not_less)
  then have tw: "takeWhile (\<lambda>e. height \<ge> index e + depth t) (blocks t) =
      takeWhile (\<lambda>e. \<not> stops t height e) (blocks t)"
    by (intro takeWhile_cong) simp_all
  from same have dw: "dropWhile (\<lambda>e. height \<ge> index e + depth t) (blocks t) =
      dropWhile (\<lambda>e. \<not> stops t height e) (blocks t)"
    by (intro dropWhile_cong) simp_all
  have "\<forall>e\<in>set (takeWhile (\<lambda>e. height \<ge> index e + depth t) (blocks t)).
      canonical t e \<longleftrightarrow> ripe t height e"
    by (auto simp add: ripe_def dest: set_takeWhileD)
  then have fl: "filter (canonical t) (takeWhile (\<lambda>e. height \<ge> index e + depth t) (blocks t)) =
      filter (ripe t height) (takeWhile (\<lambda>e. height \<ge> index e + depth t) (blocks t))"
    by (intro filter_cong) simp_all
  show ?thesis
    unfolding fl unfolding tw dw by (simp add: shift_def shift_walk split: sum.splits)
qed

lemma ex_old_enough:
  "13 \<ge> index exForkEntry + depth (exSubscriber bs)"
  "13 \<ge> index exEntry10 + depth (exSubscriber bs)"
  "\<not> 13 \<ge> index exEntry11 + depth (exSubscriber bs)"
  "\<not> canonical (exSubscriber bs) exForkEntry" "canonical (exSubscriber bs) exEntry10"
  "canonical (exSubscriber bs) exEntry11"
  by (simp_all add: canonical_def exChain_def exForkEntry_def exEntry10_def exEntry11_def)

text \<open>
  C1 (the code against the claim). The \<^verbatim>\<open>switch\<close> of \<open>shift\<close> tests the header and its
  hash before the depth. With depth 3, the entry for block 12, whose header cannot be
  retrieved, is not old enough at height 13 (\<open>12 + 3 > 13\<close>); the walk does not stop at
  it: \<open>shift(13)\<close> removes it and stops at the entry behind it. Likewise \<open>shift(12)\<close>
  removes the entry for block 10 on a side fork, not old enough (\<open>10 + 3 > 12\<close>). At
  height 13 the side-fork entry is old enough, and the call does what the claim says: it
  removes that entry without any extraction, confirms the canonical entry for block 10
  (one event, numbered 13, with the maker of its log) and stops at the entry for block
  11, which is not old enough.
\<close>

theorem shift_drops_fresh_entries:
  "index exLostEntry + depth (exSubscriber [exLostEntry, exEntry11]) > 13 \<and>
   GetHeaderByNumber (sub_chain (exSubscriber [exLostEntry, exEntry11])) (index exLostEntry) =
     None \<and>
   shift exParams (exSubscriber [exLostEntry, exEntry11]) 13 exOutside =
     Inr (exSubscriber [exEntry11], exOutside) \<and>
   index exForkEntry + depth (exSubscriber [exForkEntry, exEntry11]) > 12 \<and>
   GetHeaderByNumber (sub_chain (exSubscriber [exForkEntry, exEntry11])) (index exForkEntry) =
     Some \<lparr>HeaderHash = replicate 32 10, HeaderNumber = 10\<rparr> \<and>
   hash exForkEntry = replicate 32 12 \<and>
   shift exParams (exSubscriber [exForkEntry, exEntry11]) 12 exOutside =
     Inr (exSubscriber [exEntry11], exOutside) \<and>
   shift exParams (exSubscriber [exForkEntry, exEntry10, exEntry11]) 13 exOutside =
     Inr (exSubscriber [exEntry11],
          \<lparr>currentEvent = None,
           sent = [\<lparr>Number = 13,
                   ConfirmedMaker = [\<lparr>ctx_Value = 0, ctx_DestinationValue = 0,
                     ctx_DestinationId = 0, ctx_CTxId = replicate 32 8,
                     ctx_TxHash = replicate 32 6, ctx_BlockHash = replicate 32 10,
                     ctx_From = replicate 20 9, ctx_To = replicate 20 0, ctx_Input = []\<rparr>],
                   ConfirmedTaker = [], ConfirmedFinish = []\<rparr>],
           hooked = [(10, replicate 32 10, Some [exMakerLog])]\<rparr>)"
proof -
  have fork: "index exForkEntry + depth (exSubscriber [exForkEntry, exEntry11]) > 12"
    "GetHeaderByNumber (sub_chain (exSubscriber [exForkEntry, exEntry11])) (index exForkEntry) =
       Some \<lparr>HeaderHash = replicate 32 10, HeaderNumber = 10\<rparr>"
    "hash exForkEntry = replicate 32 12"
    "shift exParams (exSubscriber [exForkEntry, exEntry11]) 12 exOutside =
       Inr (exSubscriber [exEntry11], exOutside)"
    by (simp_all add: shift_def exForkEntry_def exEntry11_def exChain_def)
  have lost: "index exLostEntry + depth (exSubscriber [exLostEntry, exEntry11]) > 13"
    "GetHeaderByNumber (sub_chain (exSubscriber [exLostEntry, exEntry11])) (index exLostEntry) =
       None"
    "shift exParams (exSubscriber [exLostEntry, exEntry11]) 13 exOutside =
       Inr (exSubscriber [exEntry11], exOutside)"
    by (simp_all add: shift_def exLostEntry_def exEntry11_def exChain_def)
  let ?t = "exSubscriber [exForkEntry, exEntry10, exEntry11]"
  have settled: "\<forall>e\<in>set (blocks ?t). \<not> canonical ?t e \<longrightarrow> 13 \<ge> index e + depth ?t"
    by (simp add: canonical_def exChain_def exForkEntry_def exEntry10_def exEntry11_def)
  have walk: "takeWhile (\<lambda>e. 13 \<ge> index e + depth ?t) (blocks ?t) = [exForkEntry, exEntry10]"
    "dropWhile (\<lambda>e. 13 \<ge> index e + depth ?t) (blocks ?t) = [exEntry11]"
    using ex_old_enough(1-3) [of "[exForkEntry, exEntry10, exEntry11]"] by simp_all
  have canon: "filter (canonical ?t) [exForkEntry, exEntry10] = [exEntry10]"
    by (simp add: ex_old_enough)
  have old: "shift exParams ?t 13 exOutside =
     Inr (exSubscriber [exEntry11],
          \<lparr>currentEvent = None,
           sent = [\<lparr>Number = 13,
                   ConfirmedMaker = [\<lparr>ctx_Value = 0, ctx_DestinationValue = 0,
                     ctx_DestinationId = 0, ctx_CTxId = replicate 32 8,
                     ctx_TxHash = replicate 32 6, ctx_BlockHash = replicate 32 10,
                     ctx_From = replicate 20 9, ctx_To = replicate 20 0, ctx_Input = []\<rparr>],
                   ConfirmedTaker = [], ConfirmedFinish = []\<rparr>],
           hooked = [(10, replicate 32 10, Some [exMakerLog])]\<rparr>)"
    unfolding shift_past_allowance [OF settled, of exParams exOutside] walk canon ex_confirm10
    by simp
  from lost fork old show ?thesis by (simp only: simp_thms)
qed

lemma extractLogs_blocks:
  "extractLogs P (t\<lparr>blocks := b\<rparr>) vs acc = extractLogs P t vs acc"
proof (induction vs arbitrary: acc)
  case Nil
  show ?case by simp
next
  case (Cons v vs)
  obtain ctxs rtxs fins where acc: "acc = (ctxs, rtxs, fins)"
    by (cases acc) auto
  have fields: "sub_chain (t\<lparr>blocks := b\<rparr>) = sub_chain t" "depth (t\<lparr>blocks := b\<rparr>) = depth t"
    "contract (t\<lparr>blocks := b\<rparr>) = contract t"
    by simp_all
  have same: "logAccepted (t\<lparr>blocks := b\<rparr>) v = logAccepted t v"
    "decodeLog P (t\<lparr>blocks := b\<rparr>) v = decodeLog P t v"
    unfolding logAccepted_def decodeLog_def fields by (rule refl)+
  show ?case
    unfolding acc by (simp add: same Cons split: sum.splits BridgeEvent.splits)
qed

lemma shift_loop_blocks:
  "shift_loop P (t\<lparr>blocks := b\<rparr>) height bs out = shift_loop P t height bs out"
proof (induction bs arbitrary: out)
  case Nil
  show ?case by simp
next
  case (Cons e bs)
  have fields: "depth (t\<lparr>blocks := b\<rparr>) = depth t" "hookSet (t\<lparr>blocks := b\<rparr>) = hookSet t"
    by simp_all
  have "confirm P (t\<lparr>blocks := b\<rparr>) header e out = confirm P t header e out" for header
    unfolding confirm_def extractLogs_blocks fields ..
  with Cons show ?case
    by (simp split: option.splits sum.splits)
qed

text \<open>
  C2 (amended). When the header lookup returns absent for an entry that is old enough
  (\<open>height \<ge> index + depth\<close>), every entry before it in the ledger being old enough too,
  so that the walk reaches it, \<open>shift\<close> removes the entry and goes on. The call does
  what it does on the ledger without the entry (the same events, the same ledger left,
  or the same panic), so that nothing is extracted from the logs of the entry; and the
  ledger that a call leaves is a part of the ledger behind the entry: the entry is not
  kept for a later call.
\<close>

theorem shift_absent_header_drops:
  assumes absent: "GetHeaderByNumber (sub_chain t) (index e) = None"
    and old: "height \<ge> index e + depth t"
    and reached: "\<forall>x\<in>set pre. height \<ge> index x + depth t"
    and ledger: "blocks t = pre @ e # post"
  shows "shift P t height out = shift P (t\<lparr>blocks := pre @ post\<rparr>) height out \<and>
         (\<forall>t' out'. shift P t height out = Inr (t', out') \<longrightarrow> suffix (blocks t') post)"
proof -
  from absent have e: "\<not> stops t height e" "\<not> ripe t height e"
    by (simp_all add: stops_def ripe_def canonical_def)
  from reached have pre: "\<forall>x\<in>set pre. \<not> stops t height x"
    by (auto simp add: stops_def not_less)
  from pre e have tw:
    "takeWhile (\<lambda>x. \<not> stops t height x) (pre @ e # post) =
       pre @ e # takeWhile (\<lambda>x. \<not> stops t height x) post"
    "takeWhile (\<lambda>x. \<not> stops t height x) (pre @ post) =
       pre @ takeWhile (\<lambda>x. \<not> stops t height x) post"
    "dropWhile (\<lambda>x. \<not> stops t height x) (pre @ e # post) =
       dropWhile (\<lambda>x. \<not> stops t height x) post"
    "dropWhile (\<lambda>x. \<not> stops t height x) (pre @ post) =
       dropWhile (\<lambda>x. \<not> stops t height x) post"
    by (simp_all add: takeWhile_append2 dropWhile_append2)
  have loop: "shift_loop P t height (pre @ e # post) out = shift_loop P t height (pre @ post) out"
    by (simp add: shift_walk tw e cong: sum.case_cong)
  have same: "shift P t height out = shift P (t\<lparr>blocks := pre @ post\<rparr>) height out"
    by (simp add: shift_def ledger loop shift_loop_blocks split: sum.splits prod.splits)
  have left: "suffix (blocks t') post" if "shift P t height out = Inr (t', out')" for t' out'
  proof -
    from that ledger
    have "shift_loop P t height (pre @ e # post) out = Inr (blocks t', out')"
      by (auto simp add: shift_def split: sum.splits)
    then have "suffix (blocks t') (dropWhile (\<lambda>x. \<not> stops t height x) post)"
      by (auto simp add: shift_walk tw split: sum.splits cong: sum.case_cong)
    then show ?thesis
      by (rule suffix_order.trans) (rule suffix_dropWhile)
  qed
  from same left show ?thesis by blast
qed

text \<open>
  The header of block 12 cannot be retrieved. With depth 3, \<open>shift(16)\<close> on the ledger
  of the entries for blocks 10, 12 and 11, all old enough, confirms the first, removes
  the second and confirms the third, whose slice of logs is \<^verbatim>\<open>nil\<close>; that is what the call
  does on the ledger of the first and the third entry, and no entry is left.
\<close>

theorem shift_absent_header_drops_witness:
  "shift exParams (exSubscriber [exEntry10, exLostEntry, exEntry11]) 16 exOutside =
     Inr (exSubscriber [],
          \<lparr>currentEvent = None,
           sent = [\<lparr>Number = 13,
                   ConfirmedMaker = [\<lparr>ctx_Value = 0, ctx_DestinationValue = 0,
                     ctx_DestinationId = 0, ctx_CTxId = replicate 32 8,
                     ctx_TxHash = replicate 32 6, ctx_BlockHash = replicate 32 10,
                     ctx_From = replicate 20 9, ctx_To = replicate 20 0, ctx_Input = []\<rparr>],
                   ConfirmedTaker = [], ConfirmedFinish = []\<rparr>],
           hooked = [(10, replicate 32 10, Some [exMakerLog]), (11, replicate 32 11, None)]\<rparr>) \<and>
   shift exParams (exSubscriber [exEntry10, exEntry11]) 16 exOutside =
     Inr (exSubscriber [],
          \<lparr>currentEvent = None,
           sent = [\<lparr>Number = 13,
                   ConfirmedMaker = [\<lparr>ctx_Value = 0, ctx_DestinationValue = 0,
                     ctx_DestinationId = 0, ctx_CTxId = replicate 32 8,
                     ctx_TxHash = replicate 32 6, ctx_BlockHash = replicate 32 10,
                     ctx_From = replicate 20 9, ctx_To = replicate 20 0, ctx_Input = []\<rparr>],
                   ConfirmedTaker = [], ConfirmedFinish = []\<rparr>],
           hooked = [(10, replicate 32 10, Some [exMakerLog]), (11, replicate 32 11, None)]\<rparr>) \<and>
   suffix (blocks (exSubscriber [])) [exEntry11]"
proof -
  let ?t = "exSubscriber [exEntry10, exLostEntry, exEntry11]"
  let ?out = "\<lparr>currentEvent = None,
           sent = [\<lparr>Number = 13,
                   ConfirmedMaker = [\<lparr>ctx_Value = 0, ctx_DestinationValue = 0,
                     ctx_DestinationId = 0, ctx_CTxId = replicate 32 8,
                     ctx_TxHash = replicate 32 6, ctx_BlockHash = replicate 32 10,
                     ctx_From = replicate 20 9, ctx_To = replicate 20 0, ctx_Input = []\<rparr>],
                   ConfirmedTaker = [], ConfirmedFinish = []\<rparr>],
           hooked = [(10, replicate 32 10, Some [exMakerLog]), (11, replicate 32 11, None)]\<rparr>"
  have absent: "GetHeaderByNumber (sub_chain ?t) (index exLostEntry) = None"
    by (simp add: exChain_def exLostEntry_def)
  have old: "16 \<ge> index exLostEntry + depth ?t"
    by (simp add: exLostEntry_def)
  have reached: "\<forall>x\<in>set [exEntry10]. 16 \<ge> index x + depth ?t"
    by (simp add: exEntry10_def)
  have ledger: "blocks ?t = [exEntry10] @ exLostEntry # [exEntry11]"
    by simp
  have run: "shift exParams ?t 16 exOutside = Inr (exSubscriber [], ?out)"
  proof -
    have stops: "\<not> stops ?t 16 exEntry10" "\<not> stops ?t 16 exLostEntry" "\<not> stops ?t 16 exEntry11"
      "ripe ?t 16 exEntry10" "\<not> ripe ?t 16 exLostEntry" "ripe ?t 16 exEntry11"
      by (simp_all add: stops_def ripe_def canonical_def exChain_def exEntry10_def
          exLostEntry_def exEntry11_def)
    have all: "confirmAll exParams ?t [exEntry10, exEntry11] exOutside = Inr ?out"
      by (simp add: confirm_def ex_extract exEntry10_def exEntry11_def exChain_def exOutside_def
          del: extractLogs.simps)
    show ?thesis
      by (simp add: shift_def shift_walk stops all del: confirmAll.simps)
  qed
  note inst = shift_absent_header_drops [OF absent old reached ledger, of exParams exOutside]
  from inst have "shift exParams ?t 16 exOutside =
      shift exParams (?t\<lparr>blocks := [exEntry10] @ [exEntry11]\<rparr>) 16 exOutside"
    by (rule conjunct1)
  with run have without: "shift exParams (exSubscriber [exEntry10, exEntry11]) 16 exOutside =
      Inr (exSubscriber [], ?out)"
    by simp
  from inst run have "suffix (blocks (exSubscriber [])) [exEntry11]"
    by blast
  with run without show ?thesis by (simp only: simp_thms)
qed

text \<open>
  The claim as stated fails: the header of block 12 cannot be retrieved, and after
  \<open>shift(20)\<close> the entry for block 12, old enough by then (\<open>20 \<ge> 12 + 3\<close>), is gone from
  the ledger.
\<close>

theorem shift_absent_header_counterexample:
  "GetHeaderByNumber (sub_chain (exSubscriber [exLostEntry])) (index exLostEntry) = None \<and>
   20 \<ge> index exLostEntry + depth (exSubscriber [exLostEntry]) \<and>
   shift exParams (exSubscriber [exLostEntry]) 20 exOutside = Inr (exSubscriber [], exOutside)"
  by (simp add: shift_def exLostEntry_def exChain_def)


section \<open>Theorems: the log decoder\<close>

subsection \<open>Auxiliary facts\<close>





lemma or_lengths_pos:
  "(int a OR int b OR int c) > 0 \<longleftrightarrow> a \<noteq> 0 \<or> b \<noteq> 0 \<or> c \<noteq> 0"
proof -
  have "0 \<le> (int a OR int b OR int c)"
    by simp
  moreover have "(int a OR int b OR int c) = 0 \<longleftrightarrow> a = 0 \<and> b = 0 \<and> c = 0"
    by (simp add: or_eq_0_iff)
  ultimately show ?thesis by linarith
qed

subsection \<open>Maker logs at the length boundary\<close>

text \<open>
  C3. A maker log (first topic \<open>MakerTopic\<close>, at least three topics) whose data is
  exactly \<open>6 * HashLength\<close> bytes long, with a count word of zero, is decoded by the
  \<^verbatim>\<open>switch\<close> of \<open>shift\<close> into a \<open>CrossTransaction\<close> with empty payload, whose sender is the
  low-order \<open>AddressLength\<close> bytes of the third topic, whose receiver is the low-order
  \<open>AddressLength\<close> bytes of the first data word and whose id is the second topic. When
  the log passes the test before the \<^verbatim>\<open>switch\<close> (its transaction is found in its block, and
  its address is the contract's), the loop over the logs appends that cross transaction,
  and nothing else, to the makers it has: run on the log alone it returns them with the
  cross transaction at the end, the takers and the finishes as they were. The same log
  with data one byte shorter yields no event: the loop on it alone returns what it had.
  The topic constants are taken distinct, and a topic is \<open>HashLength\<close> bytes long.
\<close>

theorem maker_boundary_decodes:
  assumes topic: "Topics v ! 0 = MakerTopic P"
    and topics: "length (Topics v) \<ge> 3"
    and hash2: "length (Topics v ! 2) = HashLength"
    and len: "length (Data v) = 6 * HashLength"
    and count: "take HashLength (drop (HashLength * 5) (Data v)) = replicate HashLength 0"
    and distinct: "TakerTopic P \<noteq> MakerTopic P" "MakerFinishTopic P \<noteq> MakerTopic P"
  shows "(\<exists>tx. decodeLog P t v = Inr (Maker tx) \<and>
              ctx_Input tx = [] \<and>
              ctx_From tx = drop (HashLength - AddressLength) (Topics v ! 2) \<and>
              ctx_To tx = drop (HashLength - AddressLength) (take HashLength (Data v)) \<and>
              ctx_CTxId tx = Topics v ! 1 \<and>
              (logAccepted t v \<longrightarrow>
                 extractLogs P t [v] (ctxs, rtxs, fins) = Inr (ctxs @ [tx], rtxs, fins) \<and>
                 extractLogs P t (v # vs) (ctxs, rtxs, fins) =
                 extractLogs P t vs (ctxs @ [tx], rtxs, fins))) \<and>
         (\<forall>d. length d = 6 * HashLength - 1 \<longrightarrow>
              decodeLog P t (v\<lparr>Data := d\<rparr>) = Inr Ignored \<and>
              extractLogs P t [v\<lparr>Data := d\<rparr>] (ctxs, rtxs, fins) = Inr (ctxs, rtxs, fins) \<and>
              extractLogs P t (v\<lparr>Data := d\<rparr> # vs) (ctxs, rtxs, fins) =
              extractLogs P t vs (ctxs, rtxs, fins))"
proof -
  let ?tx = "NewCrossTransaction
      (HashBig (take HashLength (drop (HashLength * 2) (Data v))))
      (HashBig (take HashLength (drop (HashLength * 3) (Data v))))
      (HashBig (take HashLength (drop HashLength (Data v))))
      (Topics v ! 1) (TxHash v) (BlockHash v)
      (copyInto AddressLength (drop (HashLength - AddressLength) (Topics v ! 2)))
      (copyInto AddressLength (take AddressLength (drop (HashLength - AddressLength) (Data v))))
      []"
  have zero: "makerCount v = 0" using count by (rule makerCount_zero)
  have dec: "decodeLog P t v = Inr (Maker ?tx)"
    using topic len by (simp add: decodeLog_def zero go_slice_def HashLength_def)
  have frm: "ctx_From ?tx = drop (HashLength - AddressLength) (Topics v ! 2)"
    using hash2 by (simp add: NewCrossTransaction_def copyInto_exact HashLength_def AddressLength_def)
  have to: "ctx_To ?tx = drop (HashLength - AddressLength) (take HashLength (Data v))"
    using len
    by (simp add: NewCrossTransaction_def copyInto_def drop_take HashLength_def AddressLength_def)
  have rest: "ctx_Input ?tx = []" "ctx_CTxId ?tx = Topics v ! 1"
    by (simp_all add: NewCrossTransaction_def)
  have loop: "logAccepted t v \<longrightarrow>
      extractLogs P t [v] (ctxs, rtxs, fins) = Inr (ctxs @ [?tx], rtxs, fins) \<and>
      extractLogs P t (v # vs) (ctxs, rtxs, fins) = extractLogs P t vs (ctxs @ [?tx], rtxs, fins)"
    by (simp add: dec)
  have short: "decodeLog P t (v\<lparr>Data := d\<rparr>) = Inr Ignored"
    if "length d = 6 * HashLength - 1" for d
    using that topic distinct by (simp add: decodeLog_def HashLength_def)
  have skip: "extractLogs P t (v\<lparr>Data := d\<rparr> # vs) (ctxs, rtxs, fins) =
      extractLogs P t vs (ctxs, rtxs, fins)" if "length d = 6 * HashLength - 1" for d vs
    using short [OF that] by simp
  have alone: "extractLogs P t [v\<lparr>Data := d\<rparr>] (ctxs, rtxs, fins) = Inr (ctxs, rtxs, fins)"
    if "length d = 6 * HashLength - 1" for d
    using skip [OF that, of "[]"] by simp
  from dec frm to rest loop short skip alone show ?thesis by blast
qed

text \<open>
  On the maker log of the example, with 192 zero bytes of data, which passes the test of
  the loop: an empty payload, the sender \<open>9\<close> of the third topic, the id \<open>8\<close>, and the
  loop returns one maker; with 191 bytes the log is ignored, and the loop returns none.
\<close>

theorem maker_boundary_decodes_witness:
  "(\<exists>tx. decodeLog exParams (exSubscriber []) exMakerLog = Inr (Maker tx) \<and>
         ctx_Input tx = [] \<and> ctx_From tx = replicate 20 9 \<and> ctx_To tx = replicate 20 0 \<and>
         ctx_CTxId tx = replicate 32 8 \<and>
         extractLogs exParams (exSubscriber []) [exMakerLog] ([], [], []) =
           Inr ([tx], [], [])) \<and>
   decodeLog exParams (exSubscriber []) (exMakerLog\<lparr>Data := replicate 191 0\<rparr>) = Inr Ignored \<and>
   extractLogs exParams (exSubscriber []) [exMakerLog\<lparr>Data := replicate 191 0\<rparr>] ([], [], []) =
     Inr ([], [], [])"
proof -
  have pre: "Topics exMakerLog ! 0 = MakerTopic exParams" "length (Topics exMakerLog) \<ge> 3"
    "length (Topics exMakerLog ! 2) = HashLength" "length (Data exMakerLog) = 6 * HashLength"
    "take HashLength (drop (HashLength * 5) (Data exMakerLog)) = replicate HashLength 0"
    "TakerTopic exParams \<noteq> MakerTopic exParams" "MakerFinishTopic exParams \<noteq> MakerTopic exParams"
    by (simp_all add: exMakerLog_def exLog_def exParams_def HashLength_def)
  note inst = maker_boundary_decodes [OF pre, of "exSubscriber []" "[]" "[]" "[]" "[]"]
  from inst ex_accepted [of "[]"]
  obtain tx where tx: "decodeLog exParams (exSubscriber []) exMakerLog = Inr (Maker tx)"
    "ctx_Input tx = []"
    "ctx_From tx = drop (HashLength - AddressLength) (Topics exMakerLog ! 2)"
    "ctx_To tx = drop (HashLength - AddressLength) (take HashLength (Data exMakerLog))"
    "ctx_CTxId tx = Topics exMakerLog ! 1"
    "extractLogs exParams (exSubscriber []) [exMakerLog] ([], [], []) = Inr ([] @ [tx], [], [])"
    by blast
  have vals: "drop (HashLength - AddressLength) (Topics exMakerLog ! 2) = replicate 20 9"
    "drop (HashLength - AddressLength) (take HashLength (Data exMakerLog)) = replicate 20 0"
    "Topics exMakerLog ! 1 = replicate 32 8"
    by (simp_all add: exMakerLog_def exLog_def HashLength_def AddressLength_def)
  have short: "length (replicate 191 (0::byte)) = 6 * HashLength - 1"
    by (simp add: HashLength_def)
  from inst short
  have ignored: "decodeLog exParams (exSubscriber []) (exMakerLog\<lparr>Data := replicate 191 0\<rparr>) =
      Inr Ignored"
    and none: "extractLogs exParams (exSubscriber []) [exMakerLog\<lparr>Data := replicate 191 0\<rparr>]
      ([], [], []) = Inr ([], [], [])"
    by blast+
  from tx vals have "\<exists>tx. decodeLog exParams (exSubscriber []) exMakerLog = Inr (Maker tx) \<and>
         ctx_Input tx = [] \<and> ctx_From tx = replicate 20 9 \<and> ctx_To tx = replicate 20 0 \<and>
         ctx_CTxId tx = replicate 32 8 \<and>
         extractLogs exParams (exSubscriber []) [exMakerLog] ([], [], []) =
           Inr ([tx], [], [])"
    by (intro exI [of _ tx]) (simp del: extractLogs.simps)
  with ignored none show ?thesis by (simp del: extractLogs.simps)
qed

subsection \<open>The payload of a maker log\<close>








subsection \<open>Finish logs\<close>

text \<open>
  C7. A log whose first topic is \<open>MakerFinishTopic\<close>, with at least three topics, is
  decoded into a modifier whose id is the second topic, whose status is finished and whose
  block number is the log's block number plus the depth (in \<^verbatim>\<open>uint64\<close>); the loop over the
  logs appends it to the finishes. The topic constants are taken distinct.
\<close>

theorem finish_decodes:
  assumes topic: "Topics v ! 0 = MakerFinishTopic P"
    and topics: "length (Topics v) \<ge> 3"
    and distinct: "MakerFinishTopic P \<noteq> MakerTopic P" "MakerFinishTopic P \<noteq> TakerTopic P"
  shows "decodeLog P t v =
           Inr (Finish \<lparr>ID = Topics v ! 1, AtBlockNumber = BlockNumber v + depth t,
                        Status = CtxStatusFinished\<rparr>) \<and>
         (logAccepted t v \<longrightarrow>
            extractLogs P t (v # vs) (ctxs, rtxs, fins) =
            extractLogs P t vs (ctxs, rtxs,
              fins @ [\<lparr>ID = Topics v ! 1, AtBlockNumber = BlockNumber v + depth t,
                       Status = CtxStatusFinished\<rparr>]))"
proof -
  have dec: "decodeLog P t v =
           Inr (Finish \<lparr>ID = Topics v ! 1, AtBlockNumber = BlockNumber v + depth t,
                        Status = CtxStatusFinished\<rparr>)"
    using topic distinct by (auto simp add: decodeLog_def)
  then show ?thesis by simp
qed

theorem finish_decodes_witness:
  "decodeLog exParams (exSubscriber []) (exLog 3 8 []) =
     Inr (Finish \<lparr>ID = replicate 32 8, AtBlockNumber = 13, Status = CtxStatusFinished\<rparr>) \<and>
   extractLogs exParams (exSubscriber []) [exLog 3 8 []] ([], [], []) =
     Inr ([], [], [\<lparr>ID = replicate 32 8, AtBlockNumber = 13, Status = CtxStatusFinished\<rparr>])"
proof -
  have pre: "Topics (exLog 3 8 []) ! 0 = MakerFinishTopic exParams"
    "length (Topics (exLog 3 8 [])) \<ge> 3"
    "MakerFinishTopic exParams \<noteq> MakerTopic exParams"
    "MakerFinishTopic exParams \<noteq> TakerTopic exParams"
    by (simp_all add: exLog_def exParams_def)
  have accepted: "logAccepted (exSubscriber []) (exLog 3 8 [])"
    by (simp add: logAccepted_def exChain_def exLog_def)
  have vals: "Topics (exLog 3 8 []) ! 1 = replicate 32 8"
    "BlockNumber (exLog 3 8 []) + depth (exSubscriber []) = 13"
    by (simp_all add: exLog_def)
  from finish_decodes [OF pre, of "exSubscriber []" "[]" "[]" "[]" "[]"] accepted
  show ?thesis
    unfolding vals by simp
qed

subsection \<open>The confirmation number, the merge and the emission\<close>

text \<open>
  C6. When \<open>shift\<close> confirms an entry from whose logs the makers \<open>ctxs\<close>, the takers
  \<open>rtxs\<close> and the finishes \<open>fins\<close> are extracted, the confirmation number is the
  header's number plus the depth (in \<^verbatim>\<open>uint64\<close>). If the caller gave a current event
  with that number, the three lists are appended to it and nothing is emitted. Otherwise
  the current event is left alone, and a new event with that number and the three lists
  is emitted if and only if one of the lists is not empty.
\<close>

theorem confirm_merges_or_emits:
  assumes ex: "extractEntry P t next = Inr (ctxs, rtxs, fins)"
  shows "\<exists>out'. confirm P t header next out = Inr out' \<and>
     (\<forall>ev. currentEvent out = Some ev \<and> Number ev = HeaderNumber header + depth t \<longrightarrow>
        currentEvent out' =
          Some (ev\<lparr>ConfirmedMaker := ConfirmedMaker ev @ ctxs,
                   ConfirmedTaker := ConfirmedTaker ev @ rtxs,
                   ConfirmedFinish := ConfirmedFinish ev @ fins\<rparr>) \<and>
        sent out' = sent out) \<and>
     (\<not> (\<exists>ev. currentEvent out = Some ev \<and> Number ev = HeaderNumber header + depth t) \<longrightarrow>
        currentEvent out' = currentEvent out \<and>
        sent out' =
          (if ctxs \<noteq> [] \<or> rtxs \<noteq> [] \<or> fins \<noteq> []
           then sent out @ [\<lparr>Number = HeaderNumber header + depth t, ConfirmedMaker = ctxs,
                             ConfirmedTaker = rtxs, ConfirmedFinish = fins\<rparr>]
           else sent out))"
proof (cases "logs next")
  case None
  with ex have "ctxs = []" "rtxs = []" "fins = []"
    by (simp_all add: extractEntry_def)
  with None show ?thesis
    by (auto simp add: confirm_def)
next
  case (Some ls)
  with ex have "extractLogs P t ls ([], [], []) = Inr (ctxs, rtxs, fins)"
    by (simp add: extractEntry_def)
  with Some show ?thesis
    by (cases "currentEvent out") (auto simp add: confirm_def or_lengths_pos Let_def)
qed

text \<open>
  The canonical entry for block 10 of the example, confirmed under the header of block
  10 with depth 3: a current event numbered 13 receives the maker and nothing is emitted;
  a current event numbered 14 is left alone and an event numbered 13 is emitted.
\<close>

theorem confirm_merges_or_emits_witness:
  "(\<exists>out'. confirm exParams (exSubscriber []) \<lparr>HeaderHash = replicate 32 10, HeaderNumber = 10\<rparr>
             exEntry10
             (exOutside\<lparr>currentEvent := Some \<lparr>Number = 13, ConfirmedMaker = [],
                ConfirmedTaker = [], ConfirmedFinish = []\<rparr>\<rparr>) = Inr out' \<and>
           (case currentEvent out' of
              None \<Rightarrow> False
            | Some ev \<Rightarrow> Number ev = 13 \<and> map ctx_CTxId (ConfirmedMaker ev) = [replicate 32 8]) \<and>
           sent out' = []) \<and>
   (\<exists>out'. confirm exParams (exSubscriber []) \<lparr>HeaderHash = replicate 32 10, HeaderNumber = 10\<rparr>
             exEntry10
             (exOutside\<lparr>currentEvent := Some \<lparr>Number = 14, ConfirmedMaker = [],
                ConfirmedTaker = [], ConfirmedFinish = []\<rparr>\<rparr>) = Inr out' \<and>
           currentEvent out' = Some \<lparr>Number = 14, ConfirmedMaker = [],
                ConfirmedTaker = [], ConfirmedFinish = []\<rparr> \<and>
           map Number (sent out') = [13])"
proof -
  let ?h = "\<lparr>HeaderHash = replicate 32 10, HeaderNumber = 10\<rparr>"
  let ?tx = "\<lparr>ctx_Value = 0, ctx_DestinationValue = 0, ctx_DestinationId = 0,
       ctx_CTxId = replicate 32 8, ctx_TxHash = replicate 32 6, ctx_BlockHash = replicate 32 10,
       ctx_From = replicate 20 9, ctx_To = replicate 20 0, ctx_Input = []\<rparr>"
  have ex: "extractEntry exParams (exSubscriber []) exEntry10 = Inr ([?tx], [], [])"
    by (simp add: extractEntry_def exEntry10_def ex_extract del: extractLogs.simps)
  have n: "HeaderNumber ?h + depth (exSubscriber []) = 13"
    by simp
  from confirm_merges_or_emits [OF ex, of ?h
      "exOutside\<lparr>currentEvent := Some \<lparr>Number = 13, ConfirmedMaker = [],
                ConfirmedTaker = [], ConfirmedFinish = []\<rparr>\<rparr>"]
  have first: "\<exists>out'. confirm exParams (exSubscriber []) ?h exEntry10
             (exOutside\<lparr>currentEvent := Some \<lparr>Number = 13, ConfirmedMaker = [],
                ConfirmedTaker = [], ConfirmedFinish = []\<rparr>\<rparr>) = Inr out' \<and>
           (case currentEvent out' of
              None \<Rightarrow> False
            | Some ev \<Rightarrow> Number ev = 13 \<and> map ctx_CTxId (ConfirmedMaker ev) = [replicate 32 8]) \<and>
           sent out' = []"
    unfolding n by (auto simp add: exOutside_def)
  from confirm_merges_or_emits [OF ex, of ?h
      "exOutside\<lparr>currentEvent := Some \<lparr>Number = 14, ConfirmedMaker = [],
                ConfirmedTaker = [], ConfirmedFinish = []\<rparr>\<rparr>"]
  have second: "\<exists>out'. confirm exParams (exSubscriber []) ?h exEntry10
             (exOutside\<lparr>currentEvent := Some \<lparr>Number = 14, ConfirmedMaker = [],
                ConfirmedTaker = [], ConfirmedFinish = []\<rparr>\<rparr>) = Inr out' \<and>
           currentEvent out' = Some \<lparr>Number = 14, ConfirmedMaker = [],
                ConfirmedTaker = [], ConfirmedFinish = []\<rparr> \<and>
           map Number (sent out') = [13]"
    unfolding n by (auto simp add: exOutside_def)
  from first second show ?thesis by (rule conjI)
qed


section \<open>Theorems: the signing and relay tool\<close>

subsection \<open>Auxiliary facts\<close>

lemma parseLog_cases:
  "parseLog P v (c, F) =
     (if isMakerLog P v then (c\<lparr>MakerEvents := (MakerEvents c)(Topics v ! 1 \<mapsto> v)\<rparr>, F)
      else if isTakerLog P v then (c\<lparr>TakerEvents := (TakerEvents c)(Topics v ! 1 \<mapsto> v)\<rparr>, F)
      else if isFinishLog P v then (c, F @ [Topics v ! 1])
      else (c, F))"
proof -
  define A where "A \<longleftrightarrow> Topics v ! 0 = MakerTopic P \<and> length (Topics v) \<ge> 3 \<and>
             length (Data v) \<ge> HashLength * 5"
  define B where "B \<longleftrightarrow> length (Topics v) \<ge> 3 \<and> Topics v ! 0 = TakerTopic P \<and>
                  length (Data v) \<ge> HashLength * 4"
  define C where "C \<longleftrightarrow> length (Topics v) \<ge> 3 \<and> Topics v ! 0 = MakerFinishTopic P"
  have code: "parseLog P v (c, F) =
     (if length (Topics v) > 0 then
        if A then (c\<lparr>MakerEvents := (MakerEvents c)(Topics v ! 1 \<mapsto> v)\<rparr>, F)
        else if B then (c\<lparr>TakerEvents := (TakerEvents c)(Topics v ! 1 \<mapsto> v)\<rparr>, F)
        else if C then (c, F @ [Topics v ! 1])
        else (c, F)
      else (c, F))"
    unfolding parseLog_def A_def B_def C_def by (simp only: prod.case)
  have kinds: "isMakerLog P v \<longleftrightarrow> A" "isTakerLog P v \<longleftrightarrow> \<not> A \<and> B"
    "isFinishLog P v \<longleftrightarrow> \<not> A \<and> \<not> B \<and> C"
    unfolding isMakerLog_def isTakerLog_def isFinishLog_def A_def B_def C_def by blast+
  have nonempty: "A \<Longrightarrow> length (Topics v) > 0" "B \<Longrightarrow> length (Topics v) > 0"
    "C \<Longrightarrow> length (Topics v) > 0"
    unfolding A_def B_def C_def by auto
  show ?thesis
    unfolding code kinds using nonempty
    by (cases A; cases B; cases C) simp_all
qed

lemma parseLog_kinds:
  "parseLog P v (c, F) =
     (c\<lparr>MakerEvents := (if isMakerLog P v then (MakerEvents c)(Topics v ! 1 \<mapsto> v) else MakerEvents c),
        TakerEvents := (if isTakerLog P v then (TakerEvents c)(Topics v ! 1 \<mapsto> v) else TakerEvents c)\<rparr>,
      F @ (if isFinishLog P v then [Topics v ! 1] else []))"
proof -
  have "isTakerLog P v \<Longrightarrow> \<not> isMakerLog P v" "isFinishLog P v \<Longrightarrow> \<not> isMakerLog P v"
    "isFinishLog P v \<Longrightarrow> \<not> isTakerLog P v"
    unfolding isTakerLog_def isFinishLog_def by blast+
  then show ?thesis
    unfolding parseLog_cases
    by (cases "isMakerLog P v"; cases "isTakerLog P v"; cases "isFinishLog P v") simp_all
qed

lemma parseLogs_kinds:
  "foldl (\<lambda>st v. parseLog P v st) (c, F) ls =
     (c\<lparr>MakerEvents := registerAll (isMakerLog P) ls (MakerEvents c),
        TakerEvents := registerAll (isTakerLog P) ls (TakerEvents c)\<rparr>,
      F @ finishIds P ls)"
proof (induction ls arbitrary: c F)
  case Nil
  show ?case by (simp add: registerAll_def finishIds_def)
next
  case (Cons v ls)
  show ?case
    by (simp add: parseLog_kinds Cons registerAll_def finishIds_def)
qed

lemma deleteAll_apply: "deleteAll m ks x = (if x \<in> set ks then None else m x)"
proof -
  have "foldl (\<lambda>m' k. m'(k := None)) m ks x = (if x \<in> set ks then None else m x)"
    by (induction ks arbitrary: m) auto
  then show ?thesis by (simp add: deleteAll_def)
qed

lemma registerAll_Cons:
  "registerAll kind (v # ls) m =
     registerAll kind ls (if kind v then m(Topics v ! 1 \<mapsto> v) else m)"
  by (simp add: registerAll_def)

lemma registerAll_Nil: "registerAll kind [] m = m"
  by (simp add: registerAll_def)

lemma registerAll_local: "m x = m' x \<Longrightarrow> registerAll kind ls m x = registerAll kind ls m' x"
proof (induction ls arbitrary: m m')
  case Nil
  then show ?case by (simp add: registerAll_Nil)
next
  case (Cons v ls)
  show ?case
    unfolding registerAll_Cons
    by (rule Cons.IH) (simp add: Cons.prems)
qed

lemma registerAll_append:
  "registerAll kind (ls @ ls') m = registerAll kind ls' (registerAll kind ls m)"
  by (simp add: registerAll_def)

lemma finishIds_append: "finishIds P (ls @ ls') = finishIds P ls @ finishIds P ls'"
  by (simp add: finishIds_def)

lemma scanned_refl: "scanned P c F [] c F"
  by (simp add: scanned_def registerAll_def finishIds_def)

lemma scanned_trans:
  assumes "scanned P c F ls c1 F1" "scanned P c1 F1 ls' c2 F2"
  shows "scanned P c F (ls @ ls') c2 F2"
  using assms unfolding scanned_def
  by (auto simp add: registerAll_append finishIds_append intro: registerAll_local)

lemma scanned_receipt:
  assumes "foldl (\<lambda>st v. parseLog P v st) (c, F) ls = (c1, F1)"
  shows "scanned P c F ls (c1\<lparr>MakerEvents := deleteAll (MakerEvents c1) F1\<rparr>) F1"
  using assms unfolding scanned_def parseLogs_kinds
  by (auto simp add: deleteAll_apply)

lemma parseTxs_scanned:
  "parseTxs P txs (c, F) = Inr (c', F') \<Longrightarrow>
   \<exists>ls. scanTxs (Client c) (ContractAddr c) txs = Some ls \<and> scanned P c F ls c' F'"
proof (induction txs arbitrary: c F)
  case Nil
  then show ?case by (simp add: scanned_refl)
next
  case (Cons tx txs)
  show ?case
  proof (cases "btx_To tx = Some (ContractAddr c)")
    case False
    with Cons.prems have "parseTxs P txs (c, F) = Inr (c', F')"
      by (auto simp add: isCrossChainContractAddr_def split: option.splits)
    from Cons.IH [OF this] False show ?thesis by simp
  next
    case True
    with Cons.prems obtain receipt where
      r: "fetchReceipt (Client c) (btx_Hash tx) = Some receipt"
      by (auto simp add: isCrossChainContractAddr_def split: option.splits)
    obtain c1 F1 where f: "foldl (\<lambda>st v. parseLog P v st) (c, F) (Logs receipt) = (c1, F1)"
      by fastforce
    let ?c2 = "c1\<lparr>MakerEvents := deleteAll (MakerEvents c1) F1\<rparr>"
    from Cons.prems True r f have rest: "parseTxs P txs (?c2, F1) = Inr (c', F')"
      by (simp add: isCrossChainContractAddr_def)
    have one: "scanned P c F (Logs receipt) ?c2 F1"
      using f by (rule scanned_receipt)
    from Cons.IH [OF rest] obtain ls where
      ls: "scanTxs (Client ?c2) (ContractAddr ?c2) txs = Some ls" "scanned P ?c2 F1 ls c' F'"
      by blast
    from one have same: "Client ?c2 = Client c" "ContractAddr ?c2 = ContractAddr c"
      by (simp_all add: scanned_def)
    from ls same True r have "scanTxs (Client c) (ContractAddr c) (tx # txs) = Some (Logs receipt @ ls)"
      by simp
    moreover from one ls(2) have "scanned P c F (Logs receipt @ ls) c' F'"
      by (rule scanned_trans)
    ultimately show ?thesis by blast
  qed
qed

lemma parseBlocks_scanned:
  "parseBlocks P is (c, F) = Inr (c', F') \<Longrightarrow>
   \<exists>ls. scanBlocks (Client c) (ContractAddr c) is = Some ls \<and> scanned P c F ls c' F'"
proof (induction "is" arbitrary: c F)
  case Nil
  then show ?case by (simp add: scanned_refl)
next
  case (Cons i rest)
  from Cons.prems obtain block c1 F1 where
    b: "BlockByNumber (Client c) i = Some block"
    and t: "parseTxs P (Transactions block) (c, F) = Inr (c1, F1)"
    and r: "parseBlocks P rest (c1, F1) = Inr (c', F')"
    by (auto split: option.splits sum.splits)
  from parseTxs_scanned [OF t] obtain ls where
    ls: "scanTxs (Client c) (ContractAddr c) (Transactions block) = Some ls" "scanned P c F ls c1 F1"
    by blast
  from Cons.IH [OF r] obtain ls' where
    ls': "scanBlocks (Client c1) (ContractAddr c1) rest = Some ls'" "scanned P c1 F1 ls' c' F'"
    by blast
  from ls(2) have same: "Client c1 = Client c" "ContractAddr c1 = ContractAddr c"
    by (simp_all add: scanned_def)
  from b ls(1) ls'(1) same have "scanBlocks (Client c) (ContractAddr c) (i # rest) = Some (ls @ ls')"
    by simp
  moreover from ls(2) ls'(2) have "scanned P c F (ls @ ls') c' F'"
    by (rule scanned_trans)
  ultimately show ?case by blast
qed

lemma parseContractLogs_scanned:
  assumes "parseContractLogs P c (FromBlock config) (EndBlock config) = Inr (c', F')"
  shows "\<exists>ls. scannedLogs c config = Some ls \<and> F' = finishIds P ls \<and>
           TakerEvents c' = registerAll (isTakerLog P) ls (TakerEvents c) \<and>
           (\<forall>x. MakerEvents c' x =
                  (if x \<in> set F' then None else registerAll (isMakerLog P) ls (MakerEvents c) x))"
proof -
  from assms obtain ls where
    "scanBlocks (Client c) (ContractAddr c) (blockRange (FromBlock config) (EndBlock config)) = Some ls"
    "scanned P c [] ls c' F'"
    unfolding parseContractLogs_def by (blast dest: parseBlocks_scanned)
  then show ?thesis
    by (auto simp add: scannedLogs_def scanned_def)
qed

lemma ex_handler_fields [simp]:
  "MainChain (exHandler ml sl a) =
     \<lparr>Url = ''main'', Client = exClient ml a, chain_ChainID = 2,
      ContractAddr = replicate 20 5, IsMain = True,
      MakerEvents = Map.empty, TakerEvents = Map.empty\<rparr>"
  "SubChain (exHandler ml sl a) =
     \<lparr>Url = ''sub'', Client = exClient sl a, chain_ChainID = 1,
      ContractAddr = replicate 20 5, IsMain = False,
      MakerEvents = Map.empty, TakerEvents = Map.empty\<rparr>"
  "AnchorAddr (exHandler ml sl a) = replicate 20 4" "AnchorKey (exHandler ml sl a) = [1]"
  by (simp_all add: exHandler_def)

lemma ex_blockRange: "blockRange (FromBlock exConfig) (EndBlock exConfig) = [0]"
  by (simp add: blockRange_def exConfig_def)

lemma ex_scannedLogs:
  "scannedLogs (MainChain (exHandler ml sl a)) exConfig = Some ml"
  "scannedLogs (SubChain (exHandler ml sl a)) exConfig = Some sl"
  by (simp_all add: scannedLogs_def ex_blockRange exClient_def fetchReceipt_def)

lemma ex_parse_returns:
  "\<exists>h'. parseCrossChainEvents exParams (exHandler ml sl a) exConfig exConfig = Inr h'"
  by (simp add: parseCrossChainEvents_def parseContractLogs_def ex_blockRange exClient_def
      fetchReceipt_def isCrossChainContractAddr_def parseLogs_kinds)

subsection \<open>The pending sets after a scan\<close>

text \<open>
  C8. When the scan of the two chains returns, the logs of each chain were read in
  order, and for every id: it is in the main chain's pending makers if and only if no
  finish log of the main chain has it and a maker log of the main chain (or the set
  before the scan) registered it, with the last such log; it is in the sub chain's
  pending takers if and only if no finish log of the main chain has it and a taker log
  of the sub chain registered it; and the same with the two chains exchanged. So an id
  with a finish log on a chain is in neither that chain's pending makers nor the
  counterpart's pending takers, and the ids without one are where the scan registered
  them.
\<close>

theorem scan_evicts_finished:
  assumes "parseCrossChainEvents P h mainConfig subConfig = Inr h'"
  shows "\<exists>mainLogs subLogs.
           scannedLogs (MainChain h) mainConfig = Some mainLogs \<and>
           scannedLogs (SubChain h) subConfig = Some subLogs \<and>
           (\<forall>x. MakerEvents (MainChain h') x =
                  (if x \<in> set (finishIds P mainLogs) then None
                   else registerAll (isMakerLog P) mainLogs (MakerEvents (MainChain h)) x)) \<and>
           (\<forall>x. TakerEvents (SubChain h') x =
                  (if x \<in> set (finishIds P mainLogs) then None
                   else registerAll (isTakerLog P) subLogs (TakerEvents (SubChain h)) x)) \<and>
           (\<forall>x. MakerEvents (SubChain h') x =
                  (if x \<in> set (finishIds P subLogs) then None
                   else registerAll (isMakerLog P) subLogs (MakerEvents (SubChain h)) x)) \<and>
           (\<forall>x. TakerEvents (MainChain h') x =
                  (if x \<in> set (finishIds P subLogs) then None
                   else registerAll (isTakerLog P) mainLogs (TakerEvents (MainChain h)) x))"
proof -
  from assms obtain mc mf sc sf where
    m: "parseContractLogs P (MainChain h) (FromBlock mainConfig) (EndBlock mainConfig) = Inr (mc, mf)"
    and s: "parseContractLogs P (SubChain h) (FromBlock subConfig) (EndBlock subConfig) = Inr (sc, sf)"
    and h': "h' = h\<lparr>MainChain := mc\<lparr>TakerEvents := deleteAll (TakerEvents mc) sf\<rparr>,
                    SubChain := sc\<lparr>TakerEvents := deleteAll (TakerEvents sc) mf\<rparr>\<rparr>"
    by (auto simp add: parseCrossChainEvents_def split: sum.splits)
  from parseContractLogs_scanned [OF m] obtain mainLogs where
    ml: "scannedLogs (MainChain h) mainConfig = Some mainLogs" "mf = finishIds P mainLogs"
      "TakerEvents mc = registerAll (isTakerLog P) mainLogs (TakerEvents (MainChain h))"
      "\<forall>x. MakerEvents mc x =
         (if x \<in> set mf then None else registerAll (isMakerLog P) mainLogs (MakerEvents (MainChain h)) x)"
    by blast
  from parseContractLogs_scanned [OF s] obtain subLogs where
    sl: "scannedLogs (SubChain h) subConfig = Some subLogs" "sf = finishIds P subLogs"
      "TakerEvents sc = registerAll (isTakerLog P) subLogs (TakerEvents (SubChain h))"
      "\<forall>x. MakerEvents sc x =
         (if x \<in> set sf then None else registerAll (isMakerLog P) subLogs (MakerEvents (SubChain h)) x)"
    by blast
  show ?thesis
    apply (rule exI [of _ mainLogs], rule exI [of _ subLogs])
    using ml sl by (simp add: h' deleteAll_apply)
qed


text \<open>
  The scan of the example: the id \<open>20\<close>, finished on the main chain, is in neither
  set; the id \<open>21\<close> is in both.
\<close>

theorem scan_evicts_finished_witness:
  "\<exists>h'. parseCrossChainEvents exParams (exHandler exMainLogs exSubLogs True) exConfig exConfig =
           Inr h' \<and>
        MakerEvents (MainChain h') (replicate 32 20) = None \<and>
        TakerEvents (SubChain h') (replicate 32 20) = None \<and>
        MakerEvents (MainChain h') (replicate 32 21) = Some (exLog 1 21 (replicate 160 0)) \<and>
        TakerEvents (SubChain h') (replicate 32 21) = Some (exLog 2 21 (replicate 128 0))"
proof -
  let ?h = "exHandler exMainLogs exSubLogs True"
  from ex_parse_returns obtain h' where
    ret: "parseCrossChainEvents exParams ?h exConfig exConfig = Inr h'"
    by blast
  from scan_evicts_finished [OF ret] ex_scannedLogs [of exMainLogs exSubLogs True]
  have maker: "\<forall>x. MakerEvents (MainChain h') x =
         (if x \<in> set (finishIds exParams exMainLogs) then None
          else registerAll (isMakerLog exParams) exMainLogs (MakerEvents (MainChain ?h)) x)"
    and taker: "\<forall>x. TakerEvents (SubChain h') x =
         (if x \<in> set (finishIds exParams exMainLogs) then None
          else registerAll (isTakerLog exParams) exSubLogs (TakerEvents (SubChain ?h)) x)"
    by auto
  have kinds:
    "isMakerLog exParams (exLog 1 20 (replicate 160 0))"
    "\<not> isMakerLog exParams (exLog 3 20 [])"
    "isMakerLog exParams (exLog 1 21 (replicate 160 0))"
    "\<not> isFinishLog exParams (exLog 1 20 (replicate 160 0))"
    "isFinishLog exParams (exLog 3 20 [])"
    "\<not> isFinishLog exParams (exLog 1 21 (replicate 160 0))"
    "isTakerLog exParams (exLog 2 20 (replicate 128 0))"
    "isTakerLog exParams (exLog 2 21 (replicate 128 0))"
    by (simp_all add: isMakerLog_def isTakerLog_def isFinishLog_def exLog_def exParams_def
        HashLength_def)
  have ids: "Topics (exLog t c d) ! 1 = replicate 32 c"
    "Topics (exLog t c d) ! Suc 0 = replicate 32 c" for t c d
    by (simp_all add: exLog_def)
  have fin: "finishIds exParams exMainLogs = [replicate 32 20]"
    by (simp add: finishIds_def exMainLogs_def kinds ids)
  have reg:
    "registerAll (isMakerLog exParams) exMainLogs Map.empty (replicate 32 21) =
       Some (exLog 1 21 (replicate 160 0))"
    "registerAll (isTakerLog exParams) exSubLogs Map.empty (replicate 32 21) =
       Some (exLog 2 21 (replicate 128 0))"
    by (simp_all add: registerAll_def exMainLogs_def exSubLogs_def kinds ids)
  have "MakerEvents (MainChain h') (replicate 32 20) = None"
    "TakerEvents (SubChain h') (replicate 32 20) = None"
    "MakerEvents (MainChain h') (replicate 32 21) = Some (exLog 1 21 (replicate 160 0))"
    "TakerEvents (SubChain h') (replicate 32 21) = Some (exLog 2 21 (replicate 128 0))"
    by (simp_all add: maker taker fin reg)
  with ret show ?thesis by blast
qed


lemma exWord_lengths [simp]: "length exOneWord = 32" "length exWideWord = 32"
  by (simp_all add: exOneWord_def exWideWord_def)

lemma exOneWord_value: "HashBig exOneWord = 1"
  by (simp add: exOneWord_def HashBig_snoc HashBig_zeros)

lemma exWideWord_value: "HashBig exWideWord = 18446744073709551617"
  by (simp add: exWideWord_def HashBig_append HashBig_Cons HashBig_zeros HashBig_def [of "[]"])

lemma ex_taker_slices:
  "go_slice (Data (exLog 2 8 exTakerData)) (DataSpare (exLog 2 8 exTakerData)) (int (HashLength * 2 - AddressLength))
      (int (HashLength * 2)) = Inr (replicate 20 0)"
  "go_slice (Data (exLog 2 8 exTakerData)) (DataSpare (exLog 2 8 exTakerData)) 0 (int HashLength) = Inr exOneWord"
  "go_slice (Data (exLog 2 8 exWideTakerData)) (DataSpare (exLog 2 8 exWideTakerData)) (int (HashLength * 2 - AddressLength))
      (int (HashLength * 2)) = Inr (replicate 20 0)"
  "go_slice (Data (exLog 2 8 exWideTakerData)) (DataSpare (exLog 2 8 exWideTakerData)) 0 (int HashLength) = Inr exWideWord"
  by (simp_all add: go_slice_def exLog_def exTakerData_def exWideTakerData_def HashLength_def
      AddressLength_def)

lemma ex_taker_settled:
  assumes "IsMain c"
  shows "TakerEvent exExternals (exHandler ml sl True) c (exLog 2 8 exTakerData) =
     ([SendTransactionCall False
         (\<lparr>tx_nonce = 4, tx_to = replicate 20 5, tx_amount = 0, tx_gasLimit = 250000,
           tx_gasPrice = 1000, tx_data = replicate 32 8\<rparr>, 1),
       LogInfo ''SendTransaction sub''], Returned)"
  unfolding TakerEvent_def Let_def ex_taker_slices
  using assms
  by (simp add: exOneWord_value BigUint64_def exClient_def exExternals_def
      createTransaction_def newSignedTransaction_def exLog_def)

subsection \<open>The settlement of a taker event\<close>

text \<open>
  C9 (amended). For a taker log that \<open>handleTx\<close> hands to \<open>TakerEvent\<close> (three topics, at
  least \<open>4 * HashLength\<close> bytes of data), once the anchor's nonce on the counterpart chain
  is fetched: if the low-order 64 bits of the receipt's destination chain id differ from
  the counterpart chain's id, nothing is built or sent. If they are equal, and the gas
  price, the call encoding of the receipt and the signature are obtained, exactly one
  transaction is handed to the counterpart chain's client: the settlement with the
  fetched nonce, the counterpart's contract, the suggested gas price and the encoded
  receipt, signed under the counterpart chain's id (read as \<^verbatim>\<open>int64\<close>); when the client
  refuses it, an error is logged and the call returns, with no second attempt.
\<close>

theorem taker_settlement:
  assumes guard: "length (Topics event) \<ge> 3" "length (Data event) \<ge> HashLength * 4"
    and nonce: "NonceAt (Client (otherChainOf h chain)) (AnchorAddr h) = Some n"
  shows "(BigUint64 (rtx_DestinationId (takerReceipt chain event)) \<noteq>
            chain_ChainID (otherChainOf h chain) \<longrightarrow>
          TakerEvent X h chain event = ([], Returned)) \<and>
         (BigUint64 (rtx_DestinationId (takerReceipt chain event)) =
            chain_ChainID (otherChainOf h chain) \<longrightarrow>
          (\<forall>p d stx.
             SuggestGasPrice (Client (otherChainOf h chain)) = Some p \<and>
             ConstructData X (takerReceipt chain event) = Some d \<and>
             SignTx X (settlement (otherChainOf h chain) n p d)
               (sint (chain_ChainID (otherChainOf h chain))) (AnchorKey h) = Some stx \<longrightarrow>
             TakerEvent X h chain event =
               ([SendTransactionCall (IsMain (otherChainOf h chain)) stx,
                 if SendTransaction (Client (otherChainOf h chain)) stx
                 then LogInfo ''SendTransaction sub''
                 else LogError ''sub chain SendTransaction failed''], Returned)))"
proof -
  from guard have slices:
    "go_slice (Data event) (DataSpare event) (int (HashLength * 2 - AddressLength)) (int (HashLength * 2)) =
       Inr (take AddressLength (drop (HashLength * 2 - AddressLength) (Data event)))"
    "go_slice (Data event) (DataSpare event) 0 (int HashLength) = Inr (take HashLength (Data event))"
    by (simp_all add: go_slice_def HashLength_def AddressLength_def)
  from guard have topics: "\<not> length (Topics event) \<le> 2"
    by simp
  have body: "TakerEvent X h chain event =
      (if BigUint64 (rtx_DestinationId (takerReceipt chain event)) =
            chain_ChainID (otherChainOf h chain) then
         (case createTransaction X (otherChainOf h chain) (takerReceipt chain event) of
            (es, None) \<Rightarrow>
              (es @ [LogError ''GetTxForLockOut CreateTransaction''],
               Panicked NilPointerDereference)
          | (es, Some param) \<Rightarrow>
              (case newSignedTransaction X h n (ContractAddr (otherChainOf h chain))
                      (gasLimit param) (gasPrice param) (data param)
                      (chain_ChainID (otherChainOf h chain)) of
                 None \<Rightarrow>
                   (es @ [LogError ''GetTxForLockOut newSignedTransaction''], Panicked ErrPanic)
               | Some tx \<Rightarrow>
                   if SendTransaction (Client (otherChainOf h chain)) tx then
                     (es @ [SendTransactionCall (IsMain (otherChainOf h chain)) tx,
                            LogInfo ''SendTransaction sub''], Returned)
                   else
                     (es @ [SendTransactionCall (IsMain (otherChainOf h chain)) tx,
                            LogError ''sub chain SendTransaction failed''],
                      Returned)))
       else ([], Returned))"
    using nonce topics
    unfolding TakerEvent_def Let_def slices otherChainOf_def [symmetric] takerReceipt_def
    by (simp only: option.case sum.case if_False)
  show ?thesis
    unfolding body
    by (auto simp add: createTransaction_def newSignedTransaction_def settlement_def)
qed

text \<open>
  A taker log on the main chain of the example whose destination is 1, the id of the sub
  chain: the settlement, with nonce 4 and gas price 1000, goes to the sub chain's client;
  when that client refuses it, the error is logged after the one attempt.
\<close>

theorem taker_settlement_witness:
  "TakerEvent exExternals (exHandler [] [] True) (MainChain (exHandler [] [] True))
     (exLog 2 8 exTakerData) =
     ([SendTransactionCall False
         (\<lparr>tx_nonce = 4, tx_to = replicate 20 5, tx_amount = 0, tx_gasLimit = 250000,
           tx_gasPrice = 1000, tx_data = replicate 32 8\<rparr>, 1),
       LogInfo ''SendTransaction sub''], Returned) \<and>
   TakerEvent exExternals (exHandler [] [] False) (MainChain (exHandler [] [] False))
     (exLog 2 8 exTakerData) =
     ([SendTransactionCall False
         (\<lparr>tx_nonce = 4, tx_to = replicate 20 5, tx_amount = 0, tx_gasLimit = 250000,
           tx_gasPrice = 1000, tx_data = replicate 32 8\<rparr>, 1),
       LogError ''sub chain SendTransaction failed''], Returned)"
proof -
  let ?ev = "exLog 2 8 exTakerData"
  have guard: "length (Topics ?ev) \<ge> 3" "length (Data ?ev) \<ge> HashLength * 4"
    by (simp_all add: exLog_def exTakerData_def HashLength_def)
  have other: "otherChainOf (exHandler [] [] a) (MainChain (exHandler [] [] a)) =
      SubChain (exHandler [] [] a)" for a
    by (simp add: otherChainOf_def)
  have nonce: "NonceAt (Client (otherChainOf (exHandler [] [] a) (MainChain (exHandler [] [] a))))
      (AnchorAddr (exHandler [] [] a)) = Some 4" for a
    unfolding other by (simp add: exClient_def)
  have dest: "rtx_DestinationId (takerReceipt c ?ev) = 1" for c :: "(byte list, Transaction \<times> int) Chain"
    by (simp add: takerReceipt_def exLog_def exTakerData_def HashLength_def exOneWord_value)
  have match: "BigUint64 (rtx_DestinationId (takerReceipt (MainChain (exHandler [] [] a)) ?ev)) =
      chain_ChainID (otherChainOf (exHandler [] [] a) (MainChain (exHandler [] [] a)))" for a
    unfolding other dest by (simp add: BigUint64_def)
  have ext: "SuggestGasPrice (Client (otherChainOf (exHandler [] [] a) (MainChain (exHandler [] [] a)))) =
        Some 1000 \<and>
      ConstructData exExternals (takerReceipt (MainChain (exHandler [] [] a)) ?ev) =
        Some (replicate 32 8) \<and>
      SignTx exExternals
        (settlement (otherChainOf (exHandler [] [] a) (MainChain (exHandler [] [] a))) 4 1000
           (replicate 32 8))
        (sint (chain_ChainID (otherChainOf (exHandler [] [] a) (MainChain (exHandler [] [] a)))))
        (AnchorKey (exHandler [] [] a)) =
        Some (\<lparr>tx_nonce = 4, tx_to = replicate 20 5, tx_amount = 0, tx_gasLimit = 250000,
           tx_gasPrice = 1000, tx_data = replicate 32 8\<rparr>, 1)" for a
    unfolding other
    by (simp add: exClient_def exExternals_def takerReceipt_def exLog_def settlement_def)
  have send: "SendTransaction (Client (otherChainOf (exHandler [] [] a) (MainChain (exHandler [] [] a)))) stx = a"
    for a stx
    unfolding other by (simp add: exClient_def)
  have main: "IsMain (otherChainOf (exHandler [] [] a) (MainChain (exHandler [] [] a))) = False" for a
    unfolding other by simp
  from taker_settlement [OF guard nonce, of True exExternals] match [of True] ext [of True]
  have first: "TakerEvent exExternals (exHandler [] [] True) (MainChain (exHandler [] [] True)) ?ev =
     ([SendTransactionCall False
         (\<lparr>tx_nonce = 4, tx_to = replicate 20 5, tx_amount = 0, tx_gasLimit = 250000,
           tx_gasPrice = 1000, tx_data = replicate 32 8\<rparr>, 1),
       LogInfo ''SendTransaction sub''], Returned)"
    unfolding send main by (simp only: if_True) blast
  from taker_settlement [OF guard nonce, of False exExternals] match [of False] ext [of False]
  have second: "TakerEvent exExternals (exHandler [] [] False) (MainChain (exHandler [] [] False)) ?ev =
     ([SendTransactionCall False
         (\<lparr>tx_nonce = 4, tx_to = replicate 20 5, tx_amount = 0, tx_gasLimit = 250000,
           tx_gasPrice = 1000, tx_data = replicate 32 8\<rparr>, 1),
       LogError ''sub chain SendTransaction failed''], Returned)"
    unfolding send main by (simp only: if_False) blast
  from first second show ?thesis by (rule conjI)
qed

text \<open>
  The claim as stated fails: the destination chain id of this taker log is
  \<open>2^64 + 1\<close>, which is not the sub chain's id 1, and the settlement is built and
  handed to the sub chain's client all the same.
\<close>

theorem taker_wide_destination_counterexample:
  "rtx_DestinationId (takerReceipt (MainChain (exHandler [] [] True)) (exLog 2 8 exWideTakerData)) =
     18446744073709551617 \<and>
   unat (chain_ChainID (SubChain (exHandler [] [] True))) = 1 \<and>
   TakerEvent exExternals (exHandler [] [] True) (MainChain (exHandler [] [] True))
     (exLog 2 8 exWideTakerData) =
     ([SendTransactionCall False
         (\<lparr>tx_nonce = 4, tx_to = replicate 20 5, tx_amount = 0, tx_gasLimit = 250000,
           tx_gasPrice = 1000, tx_data = replicate 32 8\<rparr>, 1),
       LogInfo ''SendTransaction sub''], Returned)"
proof -
  have low: "BigUint64 18446744073709551617 = 1"
    by (simp add: BigUint64_def)
  have dest: "rtx_DestinationId
      (takerReceipt (MainChain (exHandler [] [] True)) (exLog 2 8 exWideTakerData)) =
     18446744073709551617"
    by (simp add: takerReceipt_def exLog_def exWideTakerData_def HashLength_def exWideWord_value)
  have run: "TakerEvent exExternals (exHandler [] [] True) (MainChain (exHandler [] [] True))
     (exLog 2 8 exWideTakerData) =
     ([SendTransactionCall False
         (\<lparr>tx_nonce = 4, tx_to = replicate 20 5, tx_amount = 0, tx_gasLimit = 250000,
           tx_gasPrice = 1000, tx_data = replicate 32 8\<rparr>, 1),
       LogInfo ''SendTransaction sub''], Returned)"
    unfolding TakerEvent_def Let_def ex_taker_slices
    by (simp add: exWideWord_value low exClient_def exExternals_def createTransaction_def
        newSignedTransaction_def exLog_def)
  from dest run show ?thesis by simp
qed

subsection \<open>Logs that fail a precondition, in a receipt\<close>

text \<open>
  C5 (the code against the claim). A log that has the maker topic and no other topic
  fails the maker precondition. In \<open>handleTx\<close> it is not skipped: the line logged for a
  maker log reads its second topic and the call panics with index out of range, so the
  taker log behind it in the same receipt is never handled, though alone it is settled.
  The loop of \<open>shift\<close> over the same log skips it and decodes the maker log behind it.
\<close>

theorem bare_maker_log_aborts_receipt:
  "handleTx exParams exExternals (exHandler [exBareMakerLog, exLog 2 8 exTakerData] [] True)
     (MainChain (exHandler [exBareMakerLog, exLog 2 8 exTakerData] [] True)) [] (replicate 32 6) =
     ([], Panicked IndexOutOfRange) \<and>
   handleTx exParams exExternals (exHandler [exLog 2 8 exTakerData] [] True)
     (MainChain (exHandler [exLog 2 8 exTakerData] [] True)) [] (replicate 32 6) =
     ([LogInfo ''tx event TakerTopic'',
       SendTransactionCall False
         (\<lparr>tx_nonce = 4, tx_to = replicate 20 5, tx_amount = 0, tx_gasLimit = 250000,
           tx_gasPrice = 1000, tx_data = replicate 32 8\<rparr>, 1),
       LogInfo ''SendTransaction sub''], Returned) \<and>
   extractLogs exParams (exSubscriber []) [exBareMakerLog, exMakerLog] ([], [], []) =
     extractLogs exParams (exSubscriber []) [exMakerLog] ([], [], [])"
proof -
  have bare: "handleLogs exParams exExternals h c [] (exBareMakerLog # vs) =
      ([], Panicked IndexOutOfRange)"
    for h c vs
    by (simp add: exBareMakerLog_def exParams_def andThen_def)
  have first: "handleTx exParams exExternals (exHandler [exBareMakerLog, exLog 2 8 exTakerData] [] True)
     (MainChain (exHandler [exBareMakerLog, exLog 2 8 exTakerData] [] True)) [] (replicate 32 6) =
     ([], Panicked IndexOutOfRange)"
    by (simp add: handleTx_def exClient_def bare del: handleLogs.simps)
  have guard: "length (Topics (exLog 2 8 exTakerData)) > 0"
    "Topics (exLog 2 8 exTakerData) ! 0 \<noteq> MakerTopic exParams"
    "length (Topics (exLog 2 8 exTakerData)) \<ge> 3 \<and>
       Topics (exLog 2 8 exTakerData) ! 0 = TakerTopic exParams \<and>
       length (Data (exLog 2 8 exTakerData)) \<ge> HashLength * 4"
    by (simp_all add: exLog_def exParams_def exTakerData_def HashLength_def)
  have second: "handleTx exParams exExternals (exHandler [exLog 2 8 exTakerData] [] True)
     (MainChain (exHandler [exLog 2 8 exTakerData] [] True)) [] (replicate 32 6) =
     ([LogInfo ''tx event TakerTopic'',
       SendTransactionCall False
         (\<lparr>tx_nonce = 4, tx_to = replicate 20 5, tx_amount = 0, tx_gasLimit = 250000,
           tx_gasPrice = 1000, tx_data = replicate 32 8\<rparr>, 1),
       LogInfo ''SendTransaction sub''], Returned)"
    using guard by (simp add: handleTx_def exClient_def ex_taker_settled andThen_def)
  have "\<not> logAccepted (exSubscriber []) exBareMakerLog"
    by (simp add: logAccepted_def exBareMakerLog_def exChain_def)
  then have third: "extractLogs exParams (exSubscriber []) [exBareMakerLog, exMakerLog] ([], [], []) =
     extractLogs exParams (exSubscriber []) [exMakerLog] ([], [], [])"
    by simp
  from first second third show ?thesis by simp
qed

subsection \<open>A signing failure in MakeEvent\<close>

text \<open>
  C10 (the code against the claim). In an environment where signing fails, \<open>SignCtx\<close>
  returns its error, and \<open>MakeEvent\<close> logs it and goes on with the \<^verbatim>\<open>nil\<close> record: it
  encodes it and logs the encoding as the \<^verbatim>\<open>CrossTransaction\<close> of the maker event; with a
  second anchor's record given, it goes on to build the multi-signed record from the
  \<^verbatim>\<open>nil\<close> one, where the call ends.
\<close>

theorem sign_failure_goes_on:
  "SignCtx exExternals (exHandler [] [] True) (replicate 32 8) 2 = None \<and>
   MakeEvent exExternals (exHandler [] [] True) (MainChain (exHandler [] [] True))
     (exLog 1 8 (replicate 160 0)) [] =
     ([LogError ''SignCtx failed'', LogInfoRlp ''CrossTransaction'' [192]], Returned) \<and>
   MakeEvent exExternals (exHandler [] [] True) (MainChain (exHandler [] [] True))
     (exLog 1 8 (replicate 160 0)) [7] =
     ([LogError ''SignCtx failed''], Panicked NilPointerDereference)"
proof -
  have sign: "SignCtx exExternals h tx s = None" for h tx s
    by (simp add: SignCtx_def exExternals_def)
  have slices:
    "go_slice (Data (exLog 1 8 (replicate 160 0))) (DataSpare (exLog 1 8 (replicate 160 0))) (int (HashLength * 4)) (int (HashLength * 5)) =
       Inr (replicate 32 0)"
    by (simp add: go_slice_def exLog_def HashLength_def)
  have count: "BigInt64 (HashBig (replicate 32 0)) = 0"
    by (simp add: HashBig_zeros BigInt64_def)
  have payload:
    "go_slice (Data (exLog 1 8 (replicate 160 0))) (DataSpare (exLog 1 8 (replicate 160 0))) (int (HashLength * 5))
       (sint (word_of_nat (HashLength * 5) + (0 :: 64 word))) = Inr []"
    by (simp add: go_slice_def exLog_def HashLength_def)
  have topics: "\<not> length (Topics (exLog 1 8 (replicate 160 0))) \<le> 2"
    by (simp add: exLog_def)
  have relay: "MakeEvent_relay exExternals c None [] =
      ([LogInfoRlp ''CrossTransaction'' [192]], Returned)"
    "MakeEvent_relay exExternals c None [7] = ([], Panicked NilPointerDereference)" for c
    by (simp_all add: MakeEvent_relay_def exExternals_def)
  have "MakeEvent exExternals (exHandler [] [] True) (MainChain (exHandler [] [] True))
     (exLog 1 8 (replicate 160 0)) bs =
     andThen ([LogError ''SignCtx failed''], Returned)
       (MakeEvent_relay exExternals (MainChain (exHandler [] [] True)) None bs)" for bs
    using topics
    by (simp only: MakeEvent_def Let_def slices count payload sign if_False sum.case
        option.case)
  then show ?thesis
    by (simp add: sign relay andThen_def)
qed


end
